theory Spec2Isabelle
  imports Complex_Main "HOL-Library.Log_Nat"
begin

section \<open>Enumerations (types\_1.py)\<close>

text \<open>
  The enumerations of \<^verbatim>\<open>types_1.py\<close> that the order pipeline uses, each with its
  wire value (\<^verbatim>\<open>.value\<close>). \<^verbatim>\<open>AccountType.SPOT\<close> is written \<open>SPOT_ACCOUNT\<close>
  because \<^verbatim>\<open>Category.SPOT\<close> already owns the name.
\<close>

datatype category = SPOT | LINEAR | INVERSE | OPTION

datatype order_type = MARKET | LIMIT

datatype side = BUY | SELL

datatype time_in_force = GTC | IOC | FOK | POST_ONLY

datatype account_type = SPOT_ACCOUNT | CONTRACT | UNIFIED

datatype order_filter = ORDER | TP_SL_ORDER | STOP_ORDER

fun category_value :: "category \<Rightarrow> string" where
  "category_value SPOT = ''spot''"
| "category_value LINEAR = ''linear''"
| "category_value INVERSE = ''inverse''"
| "category_value OPTION = ''option''"

fun order_type_value :: "order_type \<Rightarrow> string" where
  "order_type_value MARKET = ''Market''"
| "order_type_value LIMIT = ''Limit''"

fun side_value :: "side \<Rightarrow> string" where
  "side_value BUY = ''Buy''"
| "side_value SELL = ''Sell''"

fun time_in_force_value :: "time_in_force \<Rightarrow> string" where
  "time_in_force_value GTC = ''GTC''"
| "time_in_force_value IOC = ''IOC''"
| "time_in_force_value FOK = ''FOK''"
| "time_in_force_value POST_ONLY = ''PostOnly''"

fun account_type_value :: "account_type \<Rightarrow> string" where
  "account_type_value SPOT_ACCOUNT = ''SPOT''"
| "account_type_value CONTRACT = ''CONTRACT''"
| "account_type_value UNIFIED = ''UNIFIED''"

fun order_filter_value :: "order_filter \<Rightarrow> string" where
  "order_filter_value ORDER = ''Order''"
| "order_filter_value TP_SL_ORDER = ''tpslOrder''"
| "order_filter_value STOP_ORDER = ''StopOrder''"


section \<open>Python values and exceptions\<close>

text \<open>
  The exceptions the pipeline can end with. The manager and the client define no
  exception class of their own and catch nothing (the client's \<^verbatim>\<open>except\<close> blocks log and
  re-raise), so an error is either one of Python's built-in exceptions raised by a
  subscript, by \<^verbatim>\<open>float(...)\<close> or by a string operation, or whatever the HTTP session
  raised, kept here by its class name.
\<close>

datatype error =
    KeyError string
  | IndexError
  | TypeError
  | ValueError
  | AttributeError
  | SessionError string

fun error_name :: "error \<Rightarrow> string" where
  "error_name (KeyError k) = ''KeyError''"
| "error_name IndexError = ''IndexError''"
| "error_name TypeError = ''TypeError''"
| "error_name ValueError = ''ValueError''"
| "error_name AttributeError = ''AttributeError''"
| "error_name (SessionError n) = n"

text \<open>
  A Python \<^verbatim>\<open>float\<close> is an IEEE 754 binary64 number. The model keeps the real number a
  finite float stands for, and every operation rounds its exact result to the nearest
  float, a tie going to the even significand: \<open>fl\<close>. A float has 53 significant bits
  and is a multiple of \<open>2^-1074\<close>; \<open>float_exponent x\<close> is the integer \<open>e\<close> with
  \<open>2^e \<le> \<bar>x\<bar> < 2^(e+1)\<close>. Infinities and NaN (results beyond the largest float) are
  not modelled.
\<close>

definition round_half_even :: "real \<Rightarrow> int" where
  "round_half_even x =
     (let f = \<lfloor>x\<rfloor>; d = x - of_int f in
      if d < 1 / 2 then f
      else if 1 / 2 < d then f + 1
      else if even f then f else f + 1)"

definition pow2 :: "int \<Rightarrow> real" where
  "pow2 q = (if 0 \<le> q then 2 ^ nat q else 1 / 2 ^ nat (- q))"

definition float_exponent :: "real \<Rightarrow> int" where
  "float_exponent x =
     (let a = \<bar>x\<bar> in
      if 1 \<le> a then int (floorlog 2 (nat \<lfloor>a\<rfloor>)) - 1
      else - int (floorlog 2 (nat (\<lceil>1 / a\<rceil> - 1))))"

definition fl :: "real \<Rightarrow> real" where
  "fl x =
     (if x = 0 then 0
      else let q = max (float_exponent x - 52) (- 1074)
           in of_int (round_half_even (x / pow2 q)) * pow2 q)"

text \<open>The operators \<^verbatim>\<open>*\<close>, \<^verbatim>\<open>/\<close>, \<^verbatim>\<open>+\<close> and \<^verbatim>\<open>-\<close> on floats.\<close>

definition fmul :: "real \<Rightarrow> real \<Rightarrow> real" where
  "fmul a b = fl (a * b)"

definition fdiv :: "real \<Rightarrow> real \<Rightarrow> real" where
  "fdiv a b = fl (a / b)"

definition fadd :: "real \<Rightarrow> real \<Rightarrow> real" where
  "fadd a b = fl (a + b)"

definition fsub :: "real \<Rightarrow> real \<Rightarrow> real" where
  "fsub a b = fl (a - b)"

text \<open>The number of binary digits of a numeral, to compute \<open>floorlog 2\<close> on literals.\<close>

fun num_bits :: "num \<Rightarrow> nat" where
  "num_bits num.One = 1"
| "num_bits (num.Bit0 k) = num_bits k + 1"
| "num_bits (num.Bit1 k) = num_bits k + 1"

text \<open>
  A decoded JSON response. Dictionaries are association lists read with \<open>map_of\<close>
  (a decoded JSON object has each key once). A number is the real it denotes.
\<close>

datatype json =
    JNull
  | JBool bool
  | JNum real
  | JStr string
  | JList "json list"
  | JDict "(string \<times> json) list"

text \<open>\<^verbatim>\<open>x[key]\<close> with a string key.\<close>

fun getitem :: "json \<Rightarrow> string \<Rightarrow> error + json" where
  "getitem (JDict kvs) k = (case map_of kvs k of None \<Rightarrow> Inl (KeyError k) | Some v \<Rightarrow> Inr v)"
| "getitem _ k = Inl TypeError"

text \<open>\<^verbatim>\<open>x[0]\<close>. A dictionary decoded from JSON has string keys only, so \<open>0\<close> is no key of it.\<close>

fun getitem0 :: "json \<Rightarrow> error + json" where
  "getitem0 (JList []) = Inl IndexError"
| "getitem0 (JList (x # xs)) = Inr x"
| "getitem0 (JStr []) = Inl IndexError"
| "getitem0 (JStr (c # cs)) = Inr (JStr [c])"
| "getitem0 (JDict kvs) = Inl (KeyError ''0'')"
| "getitem0 _ = Inl TypeError"

text \<open>
  \<^verbatim>\<open>float(s)\<close> on a string, for the literals the exchange sends: an optional sign, digits
  and at most one decimal point, with a digit somewhere; the result is the float nearest
  to the decimal. Anything else (the empty string among it) is a \<^verbatim>\<open>ValueError\<close>;
  exponents, \<^verbatim>\<open>inf\<close>, \<^verbatim>\<open>nan\<close>, underscores and surrounding blanks, which Python also
  accepts, are not covered.
\<close>

definition is_digit :: "char \<Rightarrow> bool" where
  "is_digit c \<longleftrightarrow> c \<in> set ''0123456789''"

definition digit_val :: "char \<Rightarrow> nat" where
  "digit_val c = of_char c - 48"

fun digits_val :: "nat \<Rightarrow> string \<Rightarrow> nat" where
  "digits_val acc [] = acc"
| "digits_val acc (c # cs) = digits_val (10 * acc + digit_val c) cs"

definition unsigned_float :: "string \<Rightarrow> real option" where
  "unsigned_float s =
     (let ip = takeWhile is_digit s; r = dropWhile is_digit s in
      if r = [] then (if ip = [] then None else Some (fl (real (digits_val 0 ip))))
      else if hd r = CHR ''.'' \<and> list_all is_digit (tl r) \<and> (ip \<noteq> [] \<or> tl r \<noteq> [])
      then Some (fl (real (digits_val 0 (ip @ tl r)) / 10 ^ length (tl r)))
      else None)"

fun float_of_string :: "string \<Rightarrow> real option" where
  "float_of_string [] = None"
| "float_of_string (c # cs) =
     (if c = CHR ''-'' then map_option uminus (unsigned_float cs)
      else if c = CHR ''+'' then unsigned_float cs
      else unsigned_float (c # cs))"

text \<open>\<^verbatim>\<open>float(x)\<close>.\<close>

fun py_float :: "json \<Rightarrow> error + real" where
  "py_float (JNum r) = Inr (fl r)"
| "py_float (JBool b) = Inr (if b then 1 else 0)"
| "py_float (JStr s) = (case float_of_string s of None \<Rightarrow> Inl ValueError | Some r \<Rightarrow> Inr r)"
| "py_float _ = Inl TypeError"

text \<open>
  \<^verbatim>\<open>round(x, n)\<close> on a float: the exact value of \<open>x\<close> is rounded to the nearest multiple
  of \<open>10^-n\<close>, a tie going to the even one, and the result is the float nearest to that
  decimal.
\<close>

definition py_round :: "real \<Rightarrow> nat \<Rightarrow> real" where
  "py_round x n = fl (of_int (round_half_even (x * 10 ^ n)) / 10 ^ n)"

text \<open>\<^verbatim>\<open>s.split(c)\<close> for a one-character separator, and \<^verbatim>\<open>xs[i]\<close> on a list.\<close>

fun split :: "char \<Rightarrow> string \<Rightarrow> string list" where
  "split c [] = [[]]"
| "split c (x # xs) =
     (if x = c then [] # split c xs
      else (case split c xs of [] \<Rightarrow> [[x]] | w # ws \<Rightarrow> (x # w) # ws))"

definition index :: "'a list \<Rightarrow> nat \<Rightarrow> error + 'a" where
  "index xs i = (if i < length xs then Inr (xs ! i) else Inl IndexError)"


section \<open>Static helpers of BybitManager\<close>

text \<open>
  \<^verbatim>\<open>_count_decimal_places\<close>: \<^verbatim>\<open>len(value.split('.')[1])\<close> if \<^verbatim>\<open>'.' in value\<close>, else 0.
\<close>

definition count_decimal_places :: "string \<Rightarrow> error + nat" where
  "count_decimal_places v =
     (if CHR ''.'' \<in> set v
      then (case index (split (CHR ''.'') v) 1 of Inl e \<Rightarrow> Inl e | Inr s \<Rightarrow> Inr (length s))
      else Inr 0)"

text \<open>
  \<^verbatim>\<open>_round_to_precision\<close>: \<^verbatim>\<open>factor = 10 ** precision\<close>,
  \<^verbatim>\<open>math.floor(value * factor) / factor\<close>. The integer \<^verbatim>\<open>factor\<close> becomes a float for the
  product, the floor is exact, and the quotient of the two integers is rounded once.
\<close>

definition round_to_precision :: "real \<Rightarrow> nat \<Rightarrow> real" where
  "round_to_precision v precision =
     (let factor = (10::int) ^ precision
      in fl (of_int \<lfloor>fmul v (fl (of_int factor))\<rfloor> / of_int factor))"


section \<open>The exchange session and the trace of submitted orders\<close>

text \<open>
  The pybit HTTP session is outside the repository: each of its four methods used here
  is a function from the keyword arguments it receives and the state of the exchange to
  a response or the exception it raised, and the next state of the exchange.
\<close>

type_synonym payload = "(string \<times> json) list"

record 's http_session =
  session_place_order :: "payload \<Rightarrow> 's \<Rightarrow> (error + json) \<times> 's"
  session_get_wallet_balance :: "payload \<Rightarrow> 's \<Rightarrow> (error + json) \<times> 's"
  session_get_open_orders :: "payload \<Rightarrow> 's \<Rightarrow> (error + json) \<times> 's"
  session_get_instruments_info :: "payload \<Rightarrow> 's \<Rightarrow> (error + json) \<times> 's"

text \<open>
  The arguments of one call of \<^verbatim>\<open>ApiClient.place_order\<close>. Only the parameters that some
  caller in the repository passes are fields; the other keyword parameters keep their
  defaults (\<^verbatim>\<open>None\<close>, and \<^verbatim>\<open>is_leverage = 0\<close>) at every call site.
\<close>

record order_args =
  ord_category :: category
  ord_symbol :: string
  ord_side :: side
  ord_type :: order_type
  ord_qty :: real
  ord_price :: "real option"
  ord_time_in_force :: time_in_force
  ord_filter :: order_filter
  ord_market_unit :: "string option"
  ord_trigger_price :: "real option"

text \<open>
  The state threaded through the pipeline: the exchange, and the calls of
  \<^verbatim>\<open>ApiClient.place_order\<close> made so far, oldest first (what the client logs as
  "Placing ... order").
\<close>

record 's world =
  calls :: "order_args list"
  exchange :: 's

type_synonym ('s, 'a) io = "'s world \<Rightarrow> (error + 'a) \<times> 's world"

definition io_return :: "'a \<Rightarrow> ('s, 'a) io" where
  "io_return x = (\<lambda>w. (Inr x, w))"

definition io_bind :: "('s, 'a) io \<Rightarrow> ('a \<Rightarrow> ('s, 'b) io) \<Rightarrow> ('s, 'b) io" where
  "io_bind m f = (\<lambda>w. case m w of (Inl e, w') \<Rightarrow> (Inl e, w') | (Inr x, w') \<Rightarrow> f x w')"

definition ebind :: "error + 'a \<Rightarrow> ('a \<Rightarrow> error + 'b) \<Rightarrow> error + 'b" where
  "ebind r f = (case r of Inl e \<Rightarrow> Inl e | Inr x \<Rightarrow> f x)"

definition io_lift :: "error + 'a \<Rightarrow> ('s, 'a) io" where
  "io_lift r = (\<lambda>w. (r, w))"

definition call_session :: "('s \<Rightarrow> (error + json) \<times> 's) \<Rightarrow> ('s, json) io" where
  "call_session f = (\<lambda>w. case f (exchange w) of (r, g) \<Rightarrow> (r, w\<lparr>exchange := g\<rparr>))"

text \<open>Python's truth test on an optional float and on an optional string.\<close>

fun truthy :: "real option \<Rightarrow> bool" where
  "truthy None = False"
| "truthy (Some x) = (x \<noteq> 0)"

fun truthy_str :: "string option \<Rightarrow> bool" where
  "truthy_str None = False"
| "truthy_str (Some s) = (s \<noteq> [])"


section \<open>ApiClient (api\_client.py)\<close>

text \<open>
  \<^verbatim>\<open>ApiClient.place_order\<close> builds \<^verbatim>\<open>order_data\<close>: eight entries always, \<^verbatim>\<open>price\<close>
  when it is not \<^verbatim>\<open>None\<close>, \<^verbatim>\<open>marketUnit\<close> and \<^verbatim>\<open>triggerPrice\<close> when they are truthy.
  The \<^verbatim>\<open>try\<close>/\<^verbatim>\<open>except\<close> logs and re-raises.
\<close>

definition order_data :: "order_args \<Rightarrow> payload" where
  "order_data a =
     [(''category'', JStr (category_value (ord_category a))),
      (''symbol'', JStr (ord_symbol a)),
      (''side'', JStr (side_value (ord_side a))),
      (''orderType'', JStr (order_type_value (ord_type a))),
      (''qty'', JNum (ord_qty a)),
      (''timeInForce'', JStr (time_in_force_value (ord_time_in_force a))),
      (''isLeverage'', JNum 0),
      (''orderFilter'', JStr (order_filter_value (ord_filter a)))]
     @ (case ord_price a of None \<Rightarrow> [] | Some p \<Rightarrow> [(''price'', JNum p)])
     @ (case ord_market_unit a of None \<Rightarrow> []
        | Some u \<Rightarrow> if u \<noteq> [] then [(''marketUnit'', JStr u)] else [])
     @ (case ord_trigger_price a of None \<Rightarrow> []
        | Some t \<Rightarrow> if t \<noteq> 0 then [(''triggerPrice'', JNum t)] else [])"

definition place_order :: "'s http_session \<Rightarrow> order_args \<Rightarrow> ('s, json) io" where
  "place_order sess a =
     (\<lambda>w. call_session (session_place_order sess (order_data a)) (w\<lparr>calls := calls w @ [a]\<rparr>))"

definition get_wallet_balance :: "'s http_session \<Rightarrow> account_type \<Rightarrow> string \<Rightarrow> ('s, json) io" where
  "get_wallet_balance sess account_type coin =
     call_session (session_get_wallet_balance sess
       ([(''accountType'', JStr (account_type_value account_type))]
        @ (if coin \<noteq> [] then [(''coin'', JStr coin)] else [])))"

definition get_order_by_id :: "'s http_session \<Rightarrow> category \<Rightarrow> json \<Rightarrow> ('s, json) io" where
  "get_order_by_id sess cat order_id =
     call_session (session_get_open_orders sess
       [(''category'', JStr (category_value cat)), (''orderId'', order_id)])"

definition get_instruments_info :: "'s http_session \<Rightarrow> category \<Rightarrow> string \<Rightarrow> ('s, json) io" where
  "get_instruments_info sess cat symbol =
     call_session (session_get_instruments_info sess
       ([(''category'', JStr (category_value cat))]
        @ (if symbol \<noteq> [] then [(''symbol'', JStr symbol)] else [])))"


section \<open>BybitManager (bybit\_manager.py)\<close>

text \<open>
  \<^verbatim>\<open>get_balance\<close>:
  \<^verbatim>\<open>float(balance['result']['list'][0]['coin'][0]['availableToWithdraw'])\<close>.
\<close>

definition available_to_withdraw :: "json \<Rightarrow> error + real" where
  "available_to_withdraw balance =
     ebind (getitem balance ''result'') (\<lambda>r.
     ebind (getitem r ''list'') (\<lambda>l.
     ebind (getitem0 l) (\<lambda>acct.
     ebind (getitem acct ''coin'') (\<lambda>cs.
     ebind (getitem0 cs) (\<lambda>c.
     ebind (getitem c ''availableToWithdraw'') py_float)))))"

definition get_balance :: "'s http_session \<Rightarrow> string \<Rightarrow> ('s, real) io" where
  "get_balance sess coin =
     io_bind (get_wallet_balance sess UNIFIED coin) (\<lambda>balance.
     io_lift (available_to_withdraw balance))"

text \<open>
  \<^verbatim>\<open>_calculate_order_qty\<close>: \<^verbatim>\<open>round(usdt_balance * (percent_of_balance / 100), 0)\<close>.
\<close>

definition calculate_order_qty :: "'s http_session \<Rightarrow> string \<Rightarrow> real \<Rightarrow> ('s, real) io" where
  "calculate_order_qty sess symbol percent_of_balance =
     io_bind (get_balance sess ''USDT'') (\<lambda>usdt_balance.
     io_return (py_round (fmul usdt_balance (fdiv percent_of_balance 100)) 0))"

text \<open>
  \<^verbatim>\<open>_execute_market_order\<close>: a market order for \<^verbatim>\<open>qty\<close> units of the quote coin;
  returns \<^verbatim>\<open>response['result']['orderId']\<close>.
\<close>

definition order_id_of :: "json \<Rightarrow> error + json" where
  "order_id_of response = ebind (getitem response ''result'') (\<lambda>r. getitem r ''orderId'')"

definition market_order_args :: "string \<Rightarrow> side \<Rightarrow> real \<Rightarrow> order_args" where
  "market_order_args symbol sd qty =
     \<lparr>ord_category = SPOT, ord_symbol = symbol, ord_side = sd, ord_type = MARKET,
      ord_qty = qty, ord_price = None, ord_time_in_force = IOC, ord_filter = ORDER,
      ord_market_unit = Some ''quoteCoin'', ord_trigger_price = None\<rparr>"

definition execute_market_order :: "'s http_session \<Rightarrow> string \<Rightarrow> side \<Rightarrow> real \<Rightarrow> ('s, json) io" where
  "execute_market_order sess symbol sd percent_of_balance =
     io_bind (calculate_order_qty sess symbol percent_of_balance) (\<lambda>qty.
     io_bind (place_order sess (market_order_args symbol sd qty)) (\<lambda>response.
     io_lift (order_id_of response)))"

text \<open>
  \<^verbatim>\<open>_get_avg_price\<close>: \<^verbatim>\<open>float(order_data['result']['list'][0]['avgPrice'])\<close>.
\<close>

definition avg_price_of :: "json \<Rightarrow> error + real" where
  "avg_price_of od =
     ebind (getitem od ''result'') (\<lambda>r.
     ebind (getitem r ''list'') (\<lambda>l.
     ebind (getitem0 l) (\<lambda>ord.
     ebind (getitem ord ''avgPrice'') py_float)))"

definition get_avg_price :: "'s http_session \<Rightarrow> category \<Rightarrow> json \<Rightarrow> ('s, real) io" where
  "get_avg_price sess cat order_id =
     io_bind (get_order_by_id sess cat order_id) (\<lambda>od. io_lift (avg_price_of od))"

text \<open>
  \<^verbatim>\<open>_count_decimal_places\<close> on whatever the response holds: on a string as above; on a
  list or a dictionary \<^verbatim>\<open>'.' in value\<close> is a membership test, and \<^verbatim>\<open>split\<close> is no
  attribute of either; on anything else \<^verbatim>\<open>in\<close> itself is a \<^verbatim>\<open>TypeError\<close>.
\<close>

fun count_decimal_places_of :: "json \<Rightarrow> error + nat" where
  "count_decimal_places_of (JStr s) = count_decimal_places s"
| "count_decimal_places_of (JList xs) =
     (if JStr ''.'' \<in> set xs then Inl AttributeError else Inr 0)"
| "count_decimal_places_of (JDict kvs) =
     (if ''.'' \<in> fst ` set kvs then Inl AttributeError else Inr 0)"
| "count_decimal_places_of _ = Inl TypeError"

text \<open>
  \<^verbatim>\<open>_get_qty_precision\<close> reads \<^verbatim>\<open>['result']['list'][0]['lotSizeFilter']['basePrecision']\<close>,
  \<^verbatim>\<open>_get_price_precision\<close> reads \<^verbatim>\<open>['result']['list'][0]['priceFilter']['tickSize']\<close>.
\<close>

definition precision_of :: "string \<Rightarrow> string \<Rightarrow> json \<Rightarrow> error + nat" where
  "precision_of flt field info =
     ebind (getitem info ''result'') (\<lambda>r.
     ebind (getitem r ''list'') (\<lambda>l.
     ebind (getitem0 l) (\<lambda>ins.
     ebind (getitem ins flt) (\<lambda>f.
     ebind (getitem f field) count_decimal_places_of))))"

definition get_qty_precision :: "'s http_session \<Rightarrow> category \<Rightarrow> string \<Rightarrow> ('s, nat) io" where
  "get_qty_precision sess cat symbol =
     io_bind (get_instruments_info sess cat symbol) (\<lambda>lot_size_filter.
     io_lift (precision_of ''lotSizeFilter'' ''basePrecision'' lot_size_filter))"

definition get_price_precision :: "'s http_session \<Rightarrow> category \<Rightarrow> string \<Rightarrow> ('s, nat) io" where
  "get_price_precision sess cat symbol =
     io_bind (get_instruments_info sess cat symbol) (\<lambda>tick_size_filter.
     io_lift (precision_of ''priceFilter'' ''tickSize'' tick_size_filter))"

text \<open>
  \<^verbatim>\<open>_get_formatted_balance\<close>: the balance of the coin, then the quantity precision of the
  symbol, then \<^verbatim>\<open>_round_to_precision\<close>.
\<close>

definition get_formatted_balance :: "'s http_session \<Rightarrow> string \<Rightarrow> string \<Rightarrow> ('s, real) io" where
  "get_formatted_balance sess coin symbol =
     io_bind (get_balance sess coin) (\<lambda>balance.
     io_bind (get_qty_precision sess SPOT symbol) (\<lambda>precision.
     io_return (round_to_precision balance precision)))"

text \<open>
  \<^verbatim>\<open>_calculate_target_price\<close>: the multiplier is \<^verbatim>\<open>1 + percentage / 100\<close> for a
  take-profit and \<^verbatim>\<open>1 - percentage / 100\<close> otherwise; the product is rounded to the
  price precision of the symbol.
\<close>

definition calculate_target_price :: "'s http_session \<Rightarrow> string \<Rightarrow> real \<Rightarrow> real \<Rightarrow> bool \<Rightarrow> ('s, real) io" where
  "calculate_target_price sess symbol avg_price percentage is_take_profit =
     (let multiplier = (if is_take_profit then fadd 1 (fdiv percentage 100)
                        else fsub 1 (fdiv percentage 100));
          target_price = fmul avg_price multiplier
      in io_bind (get_price_precision sess SPOT symbol) (\<lambda>p.
         io_return (py_round target_price p)))"

text \<open>\<^verbatim>\<open>_place_limit_order\<close> (always called with the default \<^verbatim>\<open>TimeInForce.GTC\<close>).\<close>

definition limit_order_args :: "string \<Rightarrow> real \<Rightarrow> real \<Rightarrow> side \<Rightarrow> order_args" where
  "limit_order_args symbol qty price sd =
     \<lparr>ord_category = SPOT, ord_symbol = symbol, ord_side = sd, ord_type = LIMIT,
      ord_qty = qty, ord_price = Some price, ord_time_in_force = GTC, ord_filter = ORDER,
      ord_market_unit = None, ord_trigger_price = None\<rparr>"

definition place_limit_order :: "'s http_session \<Rightarrow> string \<Rightarrow> real \<Rightarrow> real \<Rightarrow> side \<Rightarrow> ('s, json) io" where
  "place_limit_order sess symbol qty price sd =
     io_bind (place_order sess (limit_order_args symbol qty price sd)) (\<lambda>response.
     io_lift (order_id_of response))"

text \<open>\<^verbatim>\<open>_place_stop_loss\<close>.\<close>

definition stop_loss_args :: "string \<Rightarrow> real \<Rightarrow> real \<Rightarrow> order_args" where
  "stop_loss_args symbol qty trigger_price =
     \<lparr>ord_category = SPOT, ord_symbol = symbol, ord_side = SELL, ord_type = MARKET,
      ord_qty = qty, ord_price = None, ord_time_in_force = IOC, ord_filter = STOP_ORDER,
      ord_market_unit = None, ord_trigger_price = Some trigger_price\<rparr>"

definition place_stop_loss :: "'s http_session \<Rightarrow> string \<Rightarrow> real \<Rightarrow> real \<Rightarrow> ('s, json) io" where
  "place_stop_loss sess symbol qty trigger_price =
     place_order sess (stop_loss_args symbol qty trigger_price)"

text \<open>\<^verbatim>\<open>_set_take_profit\<close> and \<^verbatim>\<open>_set_stop_loss\<close>.\<close>

definition set_take_profit :: "'s http_session \<Rightarrow> real \<Rightarrow> real \<Rightarrow> string \<Rightarrow> real \<Rightarrow> ('s, unit) io" where
  "set_take_profit sess avg_price qty symbol tp_percentage =
     io_bind (calculate_target_price sess symbol avg_price tp_percentage True) (\<lambda>tp_price.
     io_bind (place_limit_order sess symbol qty tp_price SELL) (\<lambda>_. io_return ()))"

definition set_stop_loss :: "'s http_session \<Rightarrow> real \<Rightarrow> real \<Rightarrow> string \<Rightarrow> real \<Rightarrow> ('s, unit) io" where
  "set_stop_loss sess avg_price qty symbol sl_percentage =
     io_bind (calculate_target_price sess symbol avg_price sl_percentage False) (\<lambda>sl_price.
     io_bind (place_stop_loss sess symbol qty sl_price) (\<lambda>_. io_return ()))"

text \<open>
  \<^verbatim>\<open>place_market_order_spot_to_usdt\<close>: the market order, its average price, the
  formatted balance of the coin, then the stop-loss leg \<^verbatim>\<open>if sl_percentage\<close> and the
  take-profit leg \<^verbatim>\<open>if tp_percentage\<close>, in this order.
\<close>

definition place_market_order_spot_to_usdt ::
  "'s http_session \<Rightarrow> string \<Rightarrow> side \<Rightarrow> real \<Rightarrow> real option \<Rightarrow> real option \<Rightarrow> ('s, unit) io" where
  "place_market_order_spot_to_usdt sess coin sd percent_of_balance tp_percentage sl_percentage =
     (let symbol = coin @ ''USDT'' in
      io_bind (execute_market_order sess symbol sd percent_of_balance) (\<lambda>order_id.
      io_bind (get_avg_price sess SPOT order_id) (\<lambda>avg_price.
      io_bind (get_formatted_balance sess coin symbol) (\<lambda>qty.
      io_bind (case sl_percentage of
                 None \<Rightarrow> io_return ()
               | Some sl \<Rightarrow> if sl \<noteq> 0 then set_stop_loss sess avg_price qty symbol sl
                           else io_return ()) (\<lambda>_.
      (case tp_percentage of
         None \<Rightarrow> io_return ()
       | Some tp \<Rightarrow> if tp \<noteq> 0 then set_take_profit sess avg_price qty symbol tp
                   else io_return ()))))))"


section \<open>A sample exchange\<close>

text \<open>
  A small exchange on which the theorems below are run. Its state is the number of
  orders it has accepted. The USDT balance is \<open>usdt\<close>; the balance of any other coin is
  \<open>0\<close> before the first accepted order and \<open>0.0023\<close> after it. An order query answers
  with the entries \<open>orders\<close>, an instrument query with the entries \<open>instruments\<close>, and
  with \<open>reject_stop\<close> set the exchange refuses every stop order.
\<close>

definition sample_wallet :: "string \<Rightarrow> json" where
  "sample_wallet amount =
     JDict [(''retCode'', JNum 0),
            (''result'', JDict [(''list'', JList [JDict
               [(''accountType'', JStr ''UNIFIED''),
                (''coin'', JList [JDict [(''availableToWithdraw'', JStr amount)]])]])])]"

definition sample_listing :: "json list \<Rightarrow> json" where
  "sample_listing entries =
     JDict [(''retCode'', JNum 0), (''result'', JDict [(''list'', JList entries)])]"

definition sample_instrument :: "string \<Rightarrow> string \<Rightarrow> json" where
  "sample_instrument base_precision tick_size =
     JDict [(''lotSizeFilter'', JDict [(''basePrecision'', JStr base_precision)]),
            (''priceFilter'', JDict [(''tickSize'', JStr tick_size)])]"

definition sample_accepted :: json where
  "sample_accepted =
     JDict [(''retCode'', JNum 0), (''result'', JDict [(''orderId'', JStr ''1'')])]"

definition sample_session :: "string \<Rightarrow> json list \<Rightarrow> json list \<Rightarrow> bool \<Rightarrow> nat http_session" where
  "sample_session usdt orders instruments reject_stop =
     \<lparr>session_place_order = (\<lambda>p n.
        if reject_stop \<and> map_of p ''orderFilter'' = Some (JStr ''StopOrder'')
        then (Inl (SessionError ''InvalidRequestError''), n)
        else (Inr sample_accepted, Suc n)),
      session_get_wallet_balance = (\<lambda>p n.
        (Inr (sample_wallet
           (if map_of p ''coin'' = Some (JStr ''USDT'') then usdt
            else if n = 0 then ''0'' else ''0.0023'')), n)),
      session_get_open_orders = (\<lambda>p n. (Inr (sample_listing orders), n)),
      session_get_instruments_info = (\<lambda>p n. (Inr (sample_listing instruments), n))\<rparr>"

definition sample_filled :: json where
  "sample_filled = JDict [(''orderId'', JStr ''1''), (''avgPrice'', JStr ''100'')]"


definition sample_btcusdt :: json where
  "sample_btcusdt = sample_instrument ''0.0001'' ''0.01''"

definition sample_start :: "nat world" where
  "sample_start = \<lparr>calls = [], exchange = 0\<rparr>"

text \<open>
  A second exchange, whose state is the list of the keyword arguments its
  \<^verbatim>\<open>place_order\<close> has received, oldest first: what reached the exchange, beside what the
  manager passed to the client. It accepts every order; the USDT balance is \<open>usdt\<close> and
  the balance of every other coin is \<open>coin\<close>.
\<close>

definition recording_session :: "string \<Rightarrow> string \<Rightarrow> json list \<Rightarrow> json list \<Rightarrow> payload list http_session" where
  "recording_session usdt coin orders instruments =
     \<lparr>session_place_order = (\<lambda>p s. (Inr sample_accepted, s @ [p])),
      session_get_wallet_balance = (\<lambda>p s.
        (Inr (sample_wallet (if map_of p ''coin'' = Some (JStr ''USDT'') then usdt else coin)), s)),
      session_get_open_orders = (\<lambda>p s. (Inr (sample_listing orders), s)),
      session_get_instruments_info = (\<lambda>p s. (Inr (sample_listing instruments), s))\<rparr>"

definition recording_start :: "payload list world" where
  "recording_start = \<lparr>calls = [], exchange = []\<rparr>"


section \<open>Lemmas on the Python primitives\<close>

lemma split_no_sep: "c \<notin> set s \<Longrightarrow> split c s = [s]"
  by (induction s) auto

lemma split_first_sep: "c \<notin> set a \<Longrightarrow> split c (a @ c # b) = a # split c b"
  by (induction a) auto

lemma split_second:
  "c \<notin> set a \<Longrightarrow> index (split c (a @ c # b)) 1 = Inr (takeWhile (\<lambda>x. x \<noteq> c) b)"
proof -
  have hd_split: "\<And>s. \<exists>ws. split c s = takeWhile (\<lambda>x. x \<noteq> c) s # ws"
  proof -
    fix s show "\<exists>ws. split c s = takeWhile (\<lambda>x. x \<noteq> c) s # ws"
      by (induction s) (auto split: list.splits)
  qed
  assume "c \<notin> set a"
  then have "split c (a @ c # b) = a # split c b" by (rule split_first_sep)
  moreover obtain ws where "split c b = takeWhile (\<lambda>x. x \<noteq> c) b # ws"
    using hd_split by blast
  ultimately show ?thesis by (simp add: index_def)
qed

lemma count_decimal_places_general:
  "CHR ''.'' \<notin> set a \<Longrightarrow>
   count_decimal_places (a @ CHR ''.'' # b) = Inr (length (takeWhile (\<lambda>x. x \<noteq> CHR ''.'') b))"
  using split_second [of "CHR ''.''" a b] by (simp add: count_decimal_places_def)

lemma floorlog_numeral: "floorlog 2 (numeral k) = num_bits k"
proof (induction k)
  case One
  show ?case by (simp add: compute_floorlog)
next
  case (Bit0 k)
  have "floorlog 2 (numeral (num.Bit0 k)) = floorlog 2 (numeral (num.Bit0 k) div 2) + 1"
    by (subst compute_floorlog) simp
  also have "(numeral (num.Bit0 k) :: nat) div 2 = numeral k" by simp
  finally show ?case using Bit0 by simp
next
  case (Bit1 k)
  have "floorlog 2 (numeral (num.Bit1 k)) = floorlog 2 (numeral (num.Bit1 k) div 2) + 1"
    by (subst compute_floorlog) simp
  also have "(numeral (num.Bit1 k) :: nat) div 2 = numeral k" by simp
  finally show ?case using Bit1 by simp
qed

lemma floorlog_0: "floorlog 2 0 = 0" by (simp add: floorlog_def)
lemma floorlog_1: "floorlog 2 (Suc 0) = 1" by (simp add: compute_floorlog)

lemma round_to_precision_eq:
  "round_to_precision v p = fl (of_int \<lfloor>fmul v (fl (10 ^ p))\<rfloor> / 10 ^ p)"
  by (simp add: round_to_precision_def)

lemmas float_eval = fl_def fmul_def fdiv_def fadd_def fsub_def float_exponent_def pow2_def
  round_half_even_def py_round_def round_to_precision_eq Let_def floorlog_numeral floorlog_0 floorlog_1

lemma pow2_pos: "0 < pow2 q"
  by (simp add: pow2_def)

lemma round_half_even_of_int: "round_half_even (of_int k) = k"
  by (simp add: round_half_even_def)

lemma round_half_even_nonneg: "0 \<le> x \<Longrightarrow> 0 \<le> round_half_even x"
  unfolding round_half_even_def Let_def by auto

lemma round_half_even_near_int:
  assumes "\<bar>x - of_int k\<bar> < 1 / 2"
  shows "round_half_even x = k"
proof -
  have "of_int k - 1 < x" and "x < of_int k + 1" using assms by linarith+
  then have "k - 1 \<le> \<lfloor>x\<rfloor>" and "\<lfloor>x\<rfloor> < k + 1"
    by (linarith, linarith)
  then have "\<lfloor>x\<rfloor> = k \<or> \<lfloor>x\<rfloor> = k - 1" by linarith
  then show ?thesis
  proof
    assume f: "\<lfloor>x\<rfloor> = k"
    have "x < of_int k + 1 / 2" using assms by linarith
    then have "x - of_int k < 1 / 2" by simp
    then have "x - of_int \<lfloor>x\<rfloor> < 1 / 2" using f by (simp only:)
    then show ?thesis using f by (simp add: round_half_even_def Let_def)
  next
    assume f: "\<lfloor>x\<rfloor> = k - 1"
    have "of_int k - 1 / 2 < x" using assms by linarith
    then have "1 / 2 < x - of_int (k - 1)" by simp
    then have "1 / 2 < x - of_int \<lfloor>x\<rfloor>" using f by (simp only:)
    then show ?thesis using f by (simp add: round_half_even_def Let_def)
  qed
qed

lemma fl_nonneg: "0 \<le> x \<Longrightarrow> 0 \<le> fl x"
proof -
  assume x: "0 \<le> x"
  have "\<And>q. 0 \<le> of_int (round_half_even (x / pow2 q)) * pow2 q"
  proof -
    fix q
    have "0 \<le> x / pow2 q" using x pow2_pos [of q] by simp
    then have "0 \<le> round_half_even (x / pow2 q)" by (rule round_half_even_nonneg)
    then show "0 \<le> of_int (round_half_even (x / pow2 q)) * pow2 q"
      using pow2_pos [of q] by simp
  qed
  then show ?thesis by (simp add: fl_def Let_def)
qed

lemma fl_of_int: "\<exists>k::int. fl (of_int n) = of_int k"
proof (cases "n = 0")
  case True
  then show ?thesis by (simp add: fl_def)
next
  case False
  define q where "q = max (float_exponent (of_int n) - 52) (- 1074)"
  have e: "fl (of_int n) = of_int (round_half_even (of_int n / pow2 q)) * pow2 q"
    using False by (simp add: fl_def Let_def q_def)
  show ?thesis
  proof (cases "0 \<le> q")
    case True
    then have "pow2 q = of_int (2 ^ nat q)" by (simp add: pow2_def)
    then have "fl (of_int n) = of_int (round_half_even (of_int n / pow2 q) * 2 ^ nat q)"
      using e by simp
    then show ?thesis by blast
  next
    case False
    then have p: "pow2 q = 1 / 2 ^ nat (- q)" by (simp add: pow2_def)
    then have "of_int n / pow2 q = of_int (n * 2 ^ nat (- q))" by simp
    then have "round_half_even (of_int n / pow2 q) = n * 2 ^ nat (- q)"
      using round_half_even_of_int [of "n * 2 ^ nat (- q)"] by (simp only:)
    then have "fl (of_int n) = of_int n" using e p by simp
    then show ?thesis by blast
  qed
qed

lemma py_round_nonneg: "0 \<le> x \<Longrightarrow> 0 \<le> py_round x n"
  unfolding py_round_def by (rule fl_nonneg) (simp add: round_half_even_nonneg)

lemma py_round_0_int: "\<exists>k::int. py_round x 0 = of_int k"
  using fl_of_int [of "round_half_even x"] by (simp add: py_round_def)

lemma fmul_nonneg: "0 \<le> a \<Longrightarrow> 0 \<le> b \<Longrightarrow> 0 \<le> fmul a b"
  unfolding fmul_def by (rule fl_nonneg) simp

lemma fdiv_nonneg: "0 \<le> a \<Longrightarrow> 0 \<le> b \<Longrightarrow> 0 \<le> fdiv a b"
  unfolding fdiv_def by (rule fl_nonneg) simp

lemma py_round_tie_even:
  "py_round (fl 0.125) 2 = fl 0.12 \<and> py_round (fl 0.375) 2 = fl 0.38 \<and> py_round (fl 2.5) 0 = 2"
  by (simp add: float_eval)

lemma round_half_even_bounds:
  "\<bar>of_int (round_half_even x) - x\<bar> \<le> 1 / 2"
  unfolding round_half_even_def Let_def by (auto simp: abs_le_iff)

lemma stop_loss_90: "py_round (fmul 100 (fsub 1 (fdiv 10 100))) p = 90"
proof -
  have v: "fmul 100 (fsub 1 (fdiv 10 100)) = 90" by (simp add: float_eval)
  have "(90::real) * 10 ^ p = of_int (90 * 10 ^ p)" by simp
  then have "round_half_even (90 * 10 ^ p) = 90 * 10 ^ p"
    using round_half_even_of_int [of "90 * 10 ^ p"] by (simp only:)
  then have "py_round 90 p = fl 90" by (simp add: py_round_def)
  also have "fl 90 = 90" by (simp add: float_eval)
  finally have "py_round 90 p = 90" .
  then show ?thesis by (simp only: v)
qed

lemma take_profit_110:
  assumes "p \<le> 13"
  shows "py_round (fmul 100 (fadd 1 (fdiv 10 100))) p = 110"
proof -
  have v: "fmul 100 (fadd 1 (fdiv 10 100)) = 110 + 1 / 2 ^ 46" by (simp add: float_eval)
  have "(10::real) ^ p \<le> 10 ^ 13" using assms by (intro power_increasing) simp_all
  then have "(10::real) ^ p / 2 ^ 46 < 1 / 2" by simp
  moreover have d: "(110 + 1 / 2 ^ 46) * 10 ^ p - real_of_int (110 * 10 ^ p) = (10::real) ^ p / 2 ^ 46"
    by (simp add: algebra_simps)
  moreover have "0 \<le> (10::real) ^ p / 2 ^ 46" by simp
  ultimately have "\<bar>(110 + 1 / 2 ^ 46) * 10 ^ p - real_of_int (110 * 10 ^ p)\<bar> < 1 / 2"
    by (simp only: abs_of_nonneg)
  then have "round_half_even ((110 + 1 / 2 ^ 46) * 10 ^ p) = 110 * 10 ^ p"
    by (rule round_half_even_near_int)
  then have "py_round (110 + 1 / 2 ^ 46) p = fl 110" by (simp add: py_round_def)
  also have "fl 110 = 110" by (simp add: float_eval)
  finally have "py_round (110 + 1 / 2 ^ 46) p = 110" .
  then show ?thesis by (simp only: v)
qed

lemma round_to_precision_nonneg: "0 \<le> v \<Longrightarrow> 0 \<le> round_to_precision v p"
proof -
  assume "0 \<le> v"
  have "0 \<le> fl (10 ^ p)" by (rule fl_nonneg) simp
  then have "0 \<le> fmul v (fl (10 ^ p))" using \<open>0 \<le> v\<close> by (intro fmul_nonneg)
  then have "0 \<le> \<lfloor>fmul v (fl (10 ^ p))\<rfloor>" by simp
  then have "(0::real) \<le> of_int \<lfloor>fmul v (fl (10 ^ p))\<rfloor> / 10 ^ p" by simp
  then show ?thesis unfolding round_to_precision_eq by (rule fl_nonneg)
qed


section \<open>The state monad and the trace\<close>

lemma io_bind_Inr: "m w = (Inr x, w') \<Longrightarrow> io_bind m f w = f x w'"
  by (simp add: io_bind_def)

lemma io_bind_Inl: "m w = (Inl e, w') \<Longrightarrow> io_bind m f w = (Inl e, w')"
  by (simp add: io_bind_def)

lemma io_bind_calls:
  assumes "\<And>w. calls (snd (m w)) = calls w" and "\<And>x w. calls (snd (f x w)) = calls w"
  shows "calls (snd (io_bind m f w)) = calls w"
proof (cases "m w")
  case (Pair r w')
  then have c: "calls w' = calls w" using assms(1) [of w] by simp
  show ?thesis
  proof (cases r)
    case (Inl e)
    with Pair c show ?thesis by (simp add: io_bind_def)
  next
    case (Inr x)
    with Pair c show ?thesis using assms(2) [of x w'] by (simp add: io_bind_def)
  qed
qed

lemma io_lift_calls: "calls (snd (io_lift r w)) = calls w"
  by (simp add: io_lift_def)

lemma io_return_calls: "calls (snd (io_return x w)) = calls w"
  by (simp add: io_return_def)

lemma call_session_calls: "calls (snd (call_session f w)) = calls w"
  by (simp add: call_session_def split: prod.splits)

lemma place_order_calls: "calls (snd (place_order sess a w)) = calls w @ [a]"
  by (simp add: place_order_def call_session_def split: prod.splits)

lemma get_instruments_info_calls: "calls (snd (get_instruments_info sess cat symbol w)) = calls w"
  unfolding get_instruments_info_def by (rule call_session_calls)

lemma get_balance_calls: "calls (snd (get_balance sess coin w)) = calls w"
  unfolding get_balance_def get_wallet_balance_def
  by (intro io_bind_calls call_session_calls io_lift_calls)

lemma get_avg_price_calls: "calls (snd (get_avg_price sess cat oid w)) = calls w"
  unfolding get_avg_price_def get_order_by_id_def
  by (intro io_bind_calls call_session_calls io_lift_calls)

lemma get_qty_precision_calls: "calls (snd (get_qty_precision sess cat symbol w)) = calls w"
  unfolding get_qty_precision_def
  by (intro io_bind_calls get_instruments_info_calls io_lift_calls)

lemma get_price_precision_calls: "calls (snd (get_price_precision sess cat symbol w)) = calls w"
  unfolding get_price_precision_def
  by (intro io_bind_calls get_instruments_info_calls io_lift_calls)

lemma get_formatted_balance_calls: "calls (snd (get_formatted_balance sess coin symbol w)) = calls w"
  unfolding get_formatted_balance_def
  by (intro io_bind_calls get_balance_calls get_qty_precision_calls io_return_calls)

lemma calculate_order_qty_calls: "calls (snd (calculate_order_qty sess symbol pct w)) = calls w"
  unfolding calculate_order_qty_def
  by (intro io_bind_calls get_balance_calls io_return_calls)

lemma calculate_target_price_calls:
  "calls (snd (calculate_target_price sess symbol avg pct is_tp w)) = calls w"
  unfolding calculate_target_price_def Let_def
  by (intro io_bind_calls get_price_precision_calls io_return_calls)

lemma calculate_target_price_ok:
  "get_price_precision sess SPOT symbol w = (Inr p, w') \<Longrightarrow>
   calculate_target_price sess symbol avg pct is_tp w =
     (Inr (py_round (fmul avg (if is_tp then fadd 1 (fdiv pct 100) else fsub 1 (fdiv pct 100))) p), w')"
  by (simp add: calculate_target_price_def io_bind_Inr io_return_def)

lemma calculate_target_price_fail:
  "get_price_precision sess SPOT symbol w = (Inl e, w') \<Longrightarrow>
   calculate_target_price sess symbol avg pct is_tp w = (Inl e, w')"
  by (simp add: calculate_target_price_def io_bind_Inl)





section \<open>The legs and the tail of the pipeline\<close>

lemma place_stop_loss_calls:
  "calls (snd (place_stop_loss sess symbol qty x w)) = calls w @ [stop_loss_args symbol qty x]"
  unfolding place_stop_loss_def by (rule place_order_calls)

lemma place_limit_order_calls:
  "calls (snd (place_limit_order sess symbol qty x sd w)) = calls w @ [limit_order_args symbol qty x sd]"
proof (cases "place_order sess (limit_order_args symbol qty x sd) w")
  case (Pair r w1)
  then have "calls w1 = calls w @ [limit_order_args symbol qty x sd]"
    using place_order_calls [of sess "limit_order_args symbol qty x sd" w] by simp
  with Pair show ?thesis
    by (cases r) (simp_all add: place_limit_order_def io_bind_def io_lift_def)
qed

lemma set_stop_loss_fail:
  "get_price_precision sess SPOT symbol w = (Inl e, w1) \<Longrightarrow>
   set_stop_loss sess avg qty symbol s w = (Inl e, w1)"
  by (simp add: set_stop_loss_def calculate_target_price_fail io_bind_Inl)

lemma set_take_profit_fail:
  "get_price_precision sess SPOT symbol w = (Inl e, w1) \<Longrightarrow>
   set_take_profit sess avg qty symbol t w = (Inl e, w1)"
  by (simp add: set_take_profit_def calculate_target_price_fail io_bind_Inl)

lemma set_stop_loss_ok:
  assumes "get_price_precision sess SPOT symbol w = (Inr p, w1)"
  shows "set_stop_loss sess avg qty symbol s w =
           (case place_stop_loss sess symbol qty (py_round (fmul avg (fsub 1 (fdiv s 100))) p) w1 of
              (Inl e, w2) \<Rightarrow> (Inl e, w2) | (Inr r, w2) \<Rightarrow> (Inr (), w2))"
  using calculate_target_price_ok [OF assms, of avg s False]
  by (simp add: set_stop_loss_def io_bind_def io_return_def split: prod.splits sum.splits)

lemma set_take_profit_ok:
  assumes "get_price_precision sess SPOT symbol w = (Inr p, w1)"
  shows "set_take_profit sess avg qty symbol t w =
           (case place_limit_order sess symbol qty (py_round (fmul avg (fadd 1 (fdiv t 100))) p) SELL w1 of
              (Inl e, w2) \<Rightarrow> (Inl e, w2) | (Inr r, w2) \<Rightarrow> (Inr (), w2))"
  using calculate_target_price_ok [OF assms, of avg t True]
  by (simp add: set_take_profit_def io_bind_def io_return_def split: prod.splits sum.splits)

lemma set_stop_loss_calls_ok:
  assumes "get_price_precision sess SPOT symbol w = (Inr p, w1)"
  shows "calls (snd (set_stop_loss sess avg qty symbol s w)) =
           calls w @ [stop_loss_args symbol qty (py_round (fmul avg (fsub 1 (fdiv s 100))) p)]"
proof -
  have c: "calls w1 = calls w"
    using get_price_precision_calls [of sess SPOT symbol w] assms by simp
  let ?x = "py_round (fmul avg (fsub 1 (fdiv s 100))) p"
  obtain r w2 where p: "place_stop_loss sess symbol qty ?x w1 = (r, w2)"
    by (cases "place_stop_loss sess symbol qty ?x w1")
  then have "calls w2 = calls w1 @ [stop_loss_args symbol qty ?x]"
    using place_stop_loss_calls [of sess symbol qty ?x w1] by simp
  moreover have "snd (set_stop_loss sess avg qty symbol s w) = w2"
    using set_stop_loss_ok [OF assms, of avg qty s] p by (cases r) simp_all
  ultimately show ?thesis using c by simp
qed

lemma set_take_profit_calls_ok:
  assumes "get_price_precision sess SPOT symbol w = (Inr p, w1)"
  shows "calls (snd (set_take_profit sess avg qty symbol t w)) =
           calls w @ [limit_order_args symbol qty (py_round (fmul avg (fadd 1 (fdiv t 100))) p) SELL]"
proof -
  have c: "calls w1 = calls w"
    using get_price_precision_calls [of sess SPOT symbol w] assms by simp
  let ?x = "py_round (fmul avg (fadd 1 (fdiv t 100))) p"
  obtain r w2 where p: "place_limit_order sess symbol qty ?x SELL w1 = (r, w2)"
    by (cases "place_limit_order sess symbol qty ?x SELL w1")
  then have "calls w2 = calls w1 @ [limit_order_args symbol qty ?x SELL]"
    using place_limit_order_calls [of sess symbol qty ?x SELL w1] by simp
  moreover have "snd (set_take_profit sess avg qty symbol t w) = w2"
    using set_take_profit_ok [OF assms, of avg qty t] p by (cases r) simp_all
  ultimately show ?thesis using c by simp
qed

lemma set_stop_loss_trace:
  "\<exists>ls. calls (snd (set_stop_loss sess avg qty symbol s w)) = calls w @ ls
        \<and> (ls = [] \<or> (\<exists>x. ls = [stop_loss_args symbol qty x]))"
proof (cases "get_price_precision sess SPOT symbol w")
  case (Pair r w1)
  have c: "calls w1 = calls w"
    using get_price_precision_calls [of sess SPOT symbol w] Pair by simp
  show ?thesis
  proof (cases r)
    case (Inl e)
    with Pair c show ?thesis by (simp add: set_stop_loss_fail)
  next
    case (Inr p)
    with Pair show ?thesis using set_stop_loss_calls_ok [of sess symbol w p w1 avg qty s] by auto
  qed
qed

lemma set_take_profit_trace:
  "\<exists>ls. calls (snd (set_take_profit sess avg qty symbol t w)) = calls w @ ls
        \<and> (ls = [] \<or> (\<exists>x. ls = [limit_order_args symbol qty x SELL]))"
proof (cases "get_price_precision sess SPOT symbol w")
  case (Pair r w1)
  have c: "calls w1 = calls w"
    using get_price_precision_calls [of sess SPOT symbol w] Pair by simp
  show ?thesis
  proof (cases r)
    case (Inl e)
    with Pair c show ?thesis by (simp add: set_take_profit_fail)
  next
    case (Inr p)
    with Pair show ?thesis using set_take_profit_calls_ok [of sess symbol w p w1 avg qty t] by auto
  qed
qed

text \<open>The tail of the pipeline once the three lookups have succeeded.\<close>

lemma pipeline_tail:
  assumes "execute_market_order sess (coin @ ''USDT'') sd pct w = (Inr oid, w1)"
    and "get_avg_price sess SPOT oid w1 = (Inr avg, w2)"
    and "get_formatted_balance sess coin (coin @ ''USDT'') w2 = (Inr qty, w3)"
  shows "place_market_order_spot_to_usdt sess coin sd pct tp sl w =
          io_bind (case sl of None \<Rightarrow> io_return ()
                   | Some s \<Rightarrow> if s \<noteq> 0 then set_stop_loss sess avg qty (coin @ ''USDT'') s
                               else io_return ())
            (\<lambda>_. case tp of None \<Rightarrow> io_return ()
                  | Some t \<Rightarrow> if t \<noteq> 0 then set_take_profit sess avg qty (coin @ ''USDT'') t
                              else io_return ()) w3"
  using assms by (simp add: place_market_order_spot_to_usdt_def Let_def io_bind_def)

lemma pipeline_no_legs:
  assumes "execute_market_order sess (coin @ ''USDT'') sd pct w = (Inr oid, w1)"
    and "get_avg_price sess SPOT oid w1 = (Inr avg, w2)"
    and "get_formatted_balance sess coin (coin @ ''USDT'') w2 = (Inr qty, w3)"
    and "\<not> truthy sl" and "\<not> truthy tp"
  shows "place_market_order_spot_to_usdt sess coin sd pct tp sl w = (Inr (), w3)"
  using assms(4,5) unfolding pipeline_tail [OF assms(1-3)]
  by (cases sl; cases tp) (simp_all add: io_bind_def io_return_def)

lemma pipeline_tp_only:
  assumes "execute_market_order sess (coin @ ''USDT'') sd pct w = (Inr oid, w1)"
    and "get_avg_price sess SPOT oid w1 = (Inr avg, w2)"
    and "get_formatted_balance sess coin (coin @ ''USDT'') w2 = (Inr qty, w3)"
    and "\<not> truthy sl" and "t \<noteq> 0"
  shows "place_market_order_spot_to_usdt sess coin sd pct (Some t) sl w =
           set_take_profit sess avg qty (coin @ ''USDT'') t w3"
  using assms(4,5) unfolding pipeline_tail [OF assms(1-3)]
  by (cases sl) (simp_all add: io_bind_def io_return_def)

lemma pipeline_sl_error:
  assumes "execute_market_order sess (coin @ ''USDT'') sd pct w = (Inr oid, w1)"
    and "get_avg_price sess SPOT oid w1 = (Inr avg, w2)"
    and "get_formatted_balance sess coin (coin @ ''USDT'') w2 = (Inr qty, w3)"
    and "s \<noteq> 0" and "set_stop_loss sess avg qty (coin @ ''USDT'') s w3 = (Inl e, w4)"
  shows "place_market_order_spot_to_usdt sess coin sd pct tp (Some s) w = (Inl e, w4)"
  using assms(4,5) unfolding pipeline_tail [OF assms(1-3)]
  by (simp add: io_bind_def)

lemma pipeline_sl_then_tp:
  assumes "execute_market_order sess (coin @ ''USDT'') sd pct w = (Inr oid, w1)"
    and "get_avg_price sess SPOT oid w1 = (Inr avg, w2)"
    and "get_formatted_balance sess coin (coin @ ''USDT'') w2 = (Inr qty, w3)"
    and "s \<noteq> 0" and "set_stop_loss sess avg qty (coin @ ''USDT'') s w3 = (Inr (), w4)"
  shows "place_market_order_spot_to_usdt sess coin sd pct tp (Some s) w =
           (case tp of None \<Rightarrow> (Inr (), w4)
            | Some t \<Rightarrow> if t \<noteq> 0 then set_take_profit sess avg qty (coin @ ''USDT'') t w4
                        else (Inr (), w4))"
  using assms(4,5) unfolding pipeline_tail [OF assms(1-3)]
  by (cases tp) (simp_all add: io_bind_def io_return_def)


lemma sl_step_trace:
  "\<exists>l. calls (snd ((case sl of None \<Rightarrow> io_return ()
                     | Some s \<Rightarrow> if s \<noteq> 0 then set_stop_loss sess avg qty symbol s
                                 else io_return ()) w)) = calls w @ l
       \<and> (l = [] \<or> (\<exists>x. l = [stop_loss_args symbol qty x]))
       \<and> (\<not> truthy sl \<longrightarrow> l = [])"
proof (cases sl)
  case None
  then show ?thesis by (simp add: io_return_def)
next
  case (Some s)
  show ?thesis
  proof (cases "s = 0")
    case True
    with Some show ?thesis by (simp add: io_return_def)
  next
    case False
    with Some show ?thesis using set_stop_loss_trace [of sess avg qty symbol s w] by auto
  qed
qed

lemma tp_step_trace:
  "\<exists>l. calls (snd ((case tp of None \<Rightarrow> io_return ()
                     | Some t \<Rightarrow> if t \<noteq> 0 then set_take_profit sess avg qty symbol t
                                 else io_return ()) w)) = calls w @ l
       \<and> (l = [] \<or> (\<exists>y. l = [limit_order_args symbol qty y SELL]))
       \<and> (\<not> truthy tp \<longrightarrow> l = [])"
proof (cases tp)
  case None
  then show ?thesis by (simp add: io_return_def)
next
  case (Some t)
  show ?thesis
  proof (cases "t = 0")
    case True
    with Some show ?thesis by (simp add: io_return_def)
  next
    case False
    with Some show ?thesis using set_take_profit_trace [of sess avg qty symbol t w] by auto
  qed
qed

lemma pipeline_legs:
  assumes "execute_market_order sess (coin @ ''USDT'') sd pct w = (Inr oid, w1)"
    and "get_avg_price sess SPOT oid w1 = (Inr avg, w2)"
    and "get_formatted_balance sess coin (coin @ ''USDT'') w2 = (Inr qty, w3)"
  shows "\<exists>l1 l2. calls (snd (place_market_order_spot_to_usdt sess coin sd pct tp sl w))
                   = calls w3 @ l1 @ l2
       \<and> (l1 = [] \<or> (\<exists>x. l1 = [stop_loss_args (coin @ ''USDT'') qty x]))
       \<and> (l2 = [] \<or> (\<exists>y. l2 = [limit_order_args (coin @ ''USDT'') qty y SELL]))
       \<and> (\<not> truthy sl \<longrightarrow> l1 = []) \<and> (\<not> truthy tp \<longrightarrow> l2 = [])"
proof -
  let ?sym = "coin @ ''USDT''"
  let ?SL = "case sl of None \<Rightarrow> io_return ()
             | Some s \<Rightarrow> if s \<noteq> 0 then set_stop_loss sess avg qty ?sym s else io_return ()"
  let ?TP = "case tp of None \<Rightarrow> io_return ()
             | Some t \<Rightarrow> if t \<noteq> 0 then set_take_profit sess avg qty ?sym t else io_return ()"
  obtain r w4 where s: "?SL w3 = (r, w4)" by (cases "?SL w3")
  obtain l1 where l1: "calls w4 = calls w3 @ l1"
      "l1 = [] \<or> (\<exists>x. l1 = [stop_loss_args ?sym qty x])" "\<not> truthy sl \<longrightarrow> l1 = []"
    using sl_step_trace [where sl = sl and sess = sess and avg = avg and qty = qty
        and symbol = ?sym and w = w3] s by auto
  have R: "place_market_order_spot_to_usdt sess coin sd pct tp sl w = io_bind ?SL (\<lambda>_. ?TP) w3"
    by (rule pipeline_tail [OF assms])
  show ?thesis
  proof (cases r)
    case (Inl e)
    then have "place_market_order_spot_to_usdt sess coin sd pct tp sl w = (Inl e, w4)"
      unfolding R using s by (simp add: io_bind_def)
    then have "calls (snd (place_market_order_spot_to_usdt sess coin sd pct tp sl w))
                 = calls w3 @ l1 @ []"
      using l1(1) by simp
    with l1(2,3) show ?thesis by blast
  next
    case (Inr u)
    then have T: "place_market_order_spot_to_usdt sess coin sd pct tp sl w = ?TP w4"
      unfolding R using s by (simp add: io_bind_def)
    obtain l2 where l2: "calls (snd (?TP w4)) = calls w4 @ l2"
        "l2 = [] \<or> (\<exists>y. l2 = [limit_order_args ?sym qty y SELL])" "\<not> truthy tp \<longrightarrow> l2 = []"
      using tp_step_trace [where tp = tp and sess = sess and avg = avg and qty = qty
        and symbol = ?sym and w = w4] by auto
    have "calls (snd (place_market_order_spot_to_usdt sess coin sd pct tp sl w))
            = calls w3 @ l1 @ l2"
      unfolding T using l2(1) l1(1) by simp
    with l1(2,3) l2(2,3) show ?thesis by blast
  qed
qed

lemma pipeline_legs_qty:
  assumes "execute_market_order sess (coin @ ''USDT'') sd pct w = (Inr oid, w1)"
    and "get_avg_price sess SPOT oid w1 = (Inr avg, w2)"
    and "get_formatted_balance sess coin (coin @ ''USDT'') w2 = (Inr qty, w3)"
  shows "\<exists>ls. calls (snd (place_market_order_spot_to_usdt sess coin sd pct tp sl w)) = calls w3 @ ls
       \<and> list_all (\<lambda>a. ord_qty a = qty \<and> ord_side a = SELL) ls"
proof -
  obtain l1 l2 where l:
      "calls (snd (place_market_order_spot_to_usdt sess coin sd pct tp sl w)) = calls w3 @ l1 @ l2"
      "l1 = [] \<or> (\<exists>x. l1 = [stop_loss_args (coin @ ''USDT'') qty x])"
      "l2 = [] \<or> (\<exists>y. l2 = [limit_order_args (coin @ ''USDT'') qty y SELL])"
    using pipeline_legs [OF assms, of tp sl] by blast
  have "list_all (\<lambda>a. ord_qty a = qty \<and> ord_side a = SELL) l1"
    using l(2) by (auto simp: stop_loss_args_def)
  moreover have "list_all (\<lambda>a. ord_qty a = qty \<and> ord_side a = SELL) l2"
    using l(3) by (auto simp: limit_order_args_def)
  ultimately have "list_all (\<lambda>a. ord_qty a = qty \<and> ord_side a = SELL) (l1 @ l2)" by simp
  with l(1) show ?thesis by blast
qed

text \<open>
  The ways \<^verbatim>\<open>_get_avg_price\<close> can miss a price: no entry in the list, no \<^verbatim>\<open>avgPrice\<close> field,
  a null field, an empty string.
\<close>

lemma avg_price_of_errors:
  "avg_price_of (JDict [(''result'', JDict [(''list'', JList [])])]) = Inl IndexError
   \<and> avg_price_of (JDict [(''result'', JDict [(''list'', JList [JDict []])])])
       = Inl (KeyError ''avgPrice'')
   \<and> avg_price_of (JDict [(''result'', JDict [(''list'', JList [JDict [(''avgPrice'', JNull)]])])])
       = Inl TypeError
   \<and> avg_price_of (JDict [(''result'', JDict [(''list'', JList [JDict [(''avgPrice'', JStr [])]])])])
       = Inl ValueError"
  by (simp add: avg_price_of_def ebind_def)






text \<open>
  What \<^verbatim>\<open>ApiClient.place_order\<close> puts into \<^verbatim>\<open>order_data\<close> for each kind of order. The trigger
  price of a stop order is passed through \<^verbatim>\<open>if trigger_price:\<close>, so a trigger price of
  exactly 0 is left out of the payload.
\<close>

lemma stop_loss_payload:
  "map_of (order_data (stop_loss_args symbol qty y)) ''orderType'' = Some (JStr ''Market'')
   \<and> map_of (order_data (stop_loss_args symbol qty y)) ''side'' = Some (JStr ''Sell'')
   \<and> map_of (order_data (stop_loss_args symbol qty y)) ''orderFilter'' = Some (JStr ''StopOrder'')
   \<and> map_of (order_data (stop_loss_args symbol qty y)) ''qty'' = Some (JNum qty)
   \<and> map_of (order_data (stop_loss_args symbol qty y)) ''triggerPrice''
       = (if y = 0 then None else Some (JNum y))"
  by (simp add: order_data_def stop_loss_args_def)

lemma limit_order_payload:
  "map_of (order_data (limit_order_args symbol qty x SELL)) ''orderType'' = Some (JStr ''Limit'')
   \<and> map_of (order_data (limit_order_args symbol qty x SELL)) ''side'' = Some (JStr ''Sell'')
   \<and> map_of (order_data (limit_order_args symbol qty x SELL)) ''orderFilter'' = Some (JStr ''Order'')
   \<and> map_of (order_data (limit_order_args symbol qty x SELL)) ''qty'' = Some (JNum qty)
   \<and> map_of (order_data (limit_order_args symbol qty x SELL)) ''price'' = Some (JNum x)
   \<and> map_of (order_data (limit_order_args symbol qty x SELL)) ''timeInForce'' = Some (JStr ''GTC'')"
  by (simp add: order_data_def limit_order_args_def)

lemma market_order_payload:
  "map_of (order_data (market_order_args symbol sd q)) ''orderType'' = Some (JStr ''Market'')
   \<and> map_of (order_data (market_order_args symbol sd q)) ''qty'' = Some (JNum q)
   \<and> map_of (order_data (market_order_args symbol sd q)) ''marketUnit'' = Some (JStr ''quoteCoin'')"
  by (simp add: order_data_def market_order_args_def)


section \<open>Running the sample exchange\<close>

lemma sample_get_balance_usdt:
  "float_of_string u = Some r \<Longrightarrow>
   get_balance (sample_session u os ins rj) ''USDT'' w = (Inr r, w)"
  by (simp add: get_balance_def get_wallet_balance_def call_session_def io_bind_def io_lift_def
      sample_session_def sample_wallet_def available_to_withdraw_def ebind_def
      del: float_of_string.simps)

lemma float_of_string_1000: "float_of_string ''1000'' = Some 1000"
  by (simp add: unsigned_float_def is_digit_def digit_val_def float_eval)

lemma float_of_string_650: "float_of_string ''650'' = Some 650"
  by (simp add: unsigned_float_def is_digit_def digit_val_def float_eval)

lemma float_of_string_1_5: "float_of_string ''1.5'' = Some 1.5"
  by (simp add: unsigned_float_def is_digit_def digit_val_def float_eval)

lemma float_of_string_100: "float_of_string ''100'' = Some 100"
  by (simp add: unsigned_float_def is_digit_def digit_val_def float_eval)

lemma float_of_string_0_0023: "float_of_string ''0.0023'' = Some (fl 0.0023)"
  by (simp add: unsigned_float_def is_digit_def digit_val_def)

lemma sample_get_balance_coin:
  "get_balance (sample_session u os ins rj) ''BTC'' \<lparr>calls = c, exchange = Suc n\<rparr>
     = (Inr (fl 0.0023), \<lparr>calls = c, exchange = Suc n\<rparr>)"
  using float_of_string_0_0023
  by (simp add: get_balance_def get_wallet_balance_def call_session_def io_bind_def io_lift_def
      sample_session_def sample_wallet_def available_to_withdraw_def ebind_def
      del: float_of_string.simps)

lemma sample_place_order:
  "\<not> (rj \<and> ord_filter a = STOP_ORDER) \<Longrightarrow>
   place_order (sample_session u os ins rj) a \<lparr>calls = c, exchange = n\<rparr>
     = (Inr sample_accepted, \<lparr>calls = c @ [a], exchange = Suc n\<rparr>)"
  by (cases "ord_filter a")
     (auto simp add: place_order_def call_session_def sample_session_def order_data_def)

lemma sample_place_order_rejected:
  "ord_filter a = STOP_ORDER \<Longrightarrow>
   place_order (sample_session u os ins True) a \<lparr>calls = c, exchange = n\<rparr>
     = (Inl (SessionError ''InvalidRequestError''), \<lparr>calls = c @ [a], exchange = n\<rparr>)"
  by (simp add: place_order_def call_session_def sample_session_def order_data_def)

lemma sample_order_id: "order_id_of sample_accepted = Inr (JStr ''1'')"
  by (simp add: order_id_of_def sample_accepted_def ebind_def)


lemma sample_get_avg_price:
  "get_avg_price (sample_session u [sample_filled] ins rj) cat oid w = (Inr 100, w)"
  using float_of_string_100
  by (simp add: get_avg_price_def get_order_by_id_def call_session_def io_bind_def io_lift_def
      sample_session_def sample_listing_def sample_filled_def avg_price_of_def ebind_def
      del: float_of_string.simps)


lemma count_decimal_places_0_0001: "count_decimal_places ''0.0001'' = Inr 4"
  by (simp add: count_decimal_places_def index_def)

lemma count_decimal_places_0_01: "count_decimal_places ''0.01'' = Inr 2"
  by (simp add: count_decimal_places_def index_def)

lemma sample_get_instruments_info:
  "get_instruments_info (sample_session u os ins rj) cat symbol w = (Inr (sample_listing ins), w)"
  by (simp add: get_instruments_info_def call_session_def sample_session_def)

lemma sample_get_qty_precision:
  "get_qty_precision (sample_session u os [sample_btcusdt] rj) cat symbol w = (Inr 4, w)"
  using count_decimal_places_0_0001
  by (simp add: get_qty_precision_def sample_get_instruments_info io_bind_def io_lift_def
      sample_listing_def sample_btcusdt_def sample_instrument_def precision_of_def ebind_def)

lemma sample_get_price_precision:
  "get_price_precision (sample_session u os [sample_btcusdt] rj) cat symbol w = (Inr 2, w)"
  using count_decimal_places_0_01
  by (simp add: get_price_precision_def sample_get_instruments_info io_bind_def io_lift_def
      sample_listing_def sample_btcusdt_def sample_instrument_def precision_of_def ebind_def)

lemma sample_get_precision_empty:
  "get_qty_precision (sample_session u os [] rj) cat symbol w = (Inl IndexError, w)
   \<and> get_price_precision (sample_session u os [] rj) cat symbol w = (Inl IndexError, w)"
  by (simp add: get_qty_precision_def get_price_precision_def sample_get_instruments_info
      io_bind_def io_lift_def sample_listing_def precision_of_def ebind_def)

lemma sample_execute_market_order:
  "execute_market_order (sample_session ''1000'' os ins rj) ''BTCUSDT'' BUY 10 sample_start
     = (Inr (JStr ''1''), \<lparr>calls = [market_order_args ''BTCUSDT'' BUY 100], exchange = 1\<rparr>)"
proof -
  have b: "get_balance (sample_session ''1000'' os ins rj) ''USDT'' sample_start = (Inr 1000, sample_start)"
    by (rule sample_get_balance_usdt [OF float_of_string_1000])
  have r: "py_round (fmul 1000 (fdiv 10 100)) 0 = 100"
    by (simp add: float_eval)
  have o: "ord_filter (market_order_args ''BTCUSDT'' BUY 100) \<noteq> STOP_ORDER"
    by (simp add: market_order_args_def)
  show ?thesis
    using b r sample_place_order [of rj "market_order_args ''BTCUSDT'' BUY 100" "''1000''" os ins "[]" 0] o
    by (simp add: execute_market_order_def calculate_order_qty_def io_bind_def io_return_def
        io_lift_def sample_order_id sample_start_def)
qed

lemma sample_market_filled:
  "execute_market_order (sample_session ''1000'' os ins rj) (''BTC'' @ ''USDT'') BUY 10 sample_start
     = (Inr (JStr ''1''), \<lparr>calls = [market_order_args ''BTCUSDT'' BUY 100], exchange = Suc 0\<rparr>)"
  using sample_execute_market_order [of os ins rj] by simp

lemma sample_get_formatted_balance:
  "get_formatted_balance (sample_session u os [sample_btcusdt] rj) ''BTC'' ''BTCUSDT''
      \<lparr>calls = c, exchange = Suc n\<rparr>
     = (Inr (fl 0.0023), \<lparr>calls = c, exchange = Suc n\<rparr>)"
proof -
  have "round_to_precision (fl 0.0023) 4 = fl 0.0023" by (simp add: float_eval)
  then show ?thesis
    by (simp add: get_formatted_balance_def sample_get_balance_coin sample_get_qty_precision
        io_bind_def io_return_def)
qed

lemma sample_formatted:
  "get_formatted_balance (sample_session u os [sample_btcusdt] rj) ''BTC'' (''BTC'' @ ''USDT'')
      \<lparr>calls = c, exchange = Suc n\<rparr>
     = (Inr (fl 0.0023), \<lparr>calls = c, exchange = Suc n\<rparr>)"
  using sample_get_formatted_balance [of u os rj c n] by simp

lemma sample_set_stop_loss:
  "set_stop_loss (sample_session u os [sample_btcusdt] False) 100 (fl 0.0023) (''BTC'' @ ''USDT'') 10
      \<lparr>calls = c, exchange = n\<rparr>
     = (Inr (), \<lparr>calls = c @ [stop_loss_args ''BTCUSDT'' (fl 0.0023) 90], exchange = Suc n\<rparr>)"
proof -
  have e: "py_round (fmul 100 (fsub 1 (fdiv 10 100))) 2 = 90" by (simp add: float_eval)
  show ?thesis
    using e sample_place_order [of False "stop_loss_args ''BTCUSDT'' (fl 0.0023) 90" u os "[sample_btcusdt]" c n]
    by (simp add: set_stop_loss_def calculate_target_price_def sample_get_price_precision
        place_stop_loss_def io_bind_def io_return_def)
qed

lemma sample_set_stop_loss_rejected:
  "set_stop_loss (sample_session u os [sample_btcusdt] True) 100 (fl 0.0023) (''BTC'' @ ''USDT'') 10
      \<lparr>calls = c, exchange = n\<rparr>
     = (Inl (SessionError ''InvalidRequestError''),
        \<lparr>calls = c @ [stop_loss_args ''BTCUSDT'' (fl 0.0023) 90], exchange = n\<rparr>)"
proof -
  have e: "py_round (fmul 100 (fsub 1 (fdiv 10 100))) 2 = 90" by (simp add: float_eval)
  have f: "ord_filter (stop_loss_args ''BTCUSDT'' (fl 0.0023) 90) = STOP_ORDER"
    by (simp add: stop_loss_args_def)
  show ?thesis
    using e sample_place_order_rejected [OF f, of u os "[sample_btcusdt]" c n]
    by (simp add: set_stop_loss_def calculate_target_price_def sample_get_price_precision
        place_stop_loss_def io_bind_def io_return_def)
qed

text \<open>
  The scenario of the specification: a USDT balance of 1000 and 10 percent give a quote
  amount of 100; after the fill the balance of 0.0023 BTC at quantity precision 4 gives
  the quantity 0.0023 of both legs; an average price of 100 with 10 percent gives the
  stop-loss trigger 90 and the take-profit price 110.
\<close>

lemma sample_pipeline_both:
  "place_market_order_spot_to_usdt (sample_session ''1000'' [sample_filled] [sample_btcusdt] False)
      ''BTC'' BUY 10 (Some 10) (Some 10) sample_start
   = (Inr (), \<lparr>calls = [market_order_args ''BTCUSDT'' BUY 100,
                        stop_loss_args ''BTCUSDT'' (fl 0.0023) 90,
                        limit_order_args ''BTCUSDT'' (fl 0.0023) 110 SELL], exchange = 3\<rparr>)"
proof -
  let ?s = "sample_session ''1000'' [sample_filled] [sample_btcusdt] False"
  let ?w1 = "\<lparr>calls = [market_order_args ''BTCUSDT'' BUY 100], exchange = Suc 0\<rparr>"
  have m: "execute_market_order ?s (''BTC'' @ ''USDT'') BUY 10 sample_start = (Inr (JStr ''1''), ?w1)"
    using sample_execute_market_order [of "[sample_filled]" "[sample_btcusdt]" False] by simp
  have a: "get_avg_price ?s SPOT (JStr ''1'') ?w1 = (Inr 100, ?w1)"
    by (rule sample_get_avg_price)
  have f: "get_formatted_balance ?s ''BTC'' (''BTC'' @ ''USDT'') ?w1 = (Inr (fl 0.0023), ?w1)"
    using sample_get_formatted_balance [of "''1000''" "[sample_filled]" False _ 0] by simp
  have e1: "py_round (fmul 100 (fsub 1 (fdiv 10 100))) 2 = 90" by (simp add: float_eval)
  have e2: "py_round (fmul 100 (fadd 1 (fdiv 10 100))) 2 = 110" by (simp add: float_eval)
  have o1: "ord_filter (limit_order_args ''BTCUSDT'' (fl 0.0023) 110 SELL) \<noteq> STOP_ORDER"
    by (simp add: limit_order_args_def)
  show ?thesis
    unfolding pipeline_tail [OF m a f]
    using e1 e2 sample_place_order [of False _ "''1000''" "[sample_filled]" "[sample_btcusdt]"]
    by (simp add: io_bind_def io_return_def io_lift_def set_stop_loss_def set_take_profit_def
        calculate_target_price_def sample_get_price_precision place_stop_loss_def
        place_limit_order_def sample_order_id numeral_3_eq_3)
qed


text \<open>The same scenario on the exchange that keeps what it received.\<close>

lemma recording_get_balance_usdt:
  "float_of_string u = Some r \<Longrightarrow>
   get_balance (recording_session u c os ins) ''USDT'' w = (Inr r, w)"
  by (simp add: get_balance_def get_wallet_balance_def call_session_def io_bind_def io_lift_def
      recording_session_def sample_wallet_def available_to_withdraw_def ebind_def
      del: float_of_string.simps)

lemma recording_get_balance_coin:
  "coin \<noteq> ''USDT'' \<Longrightarrow> float_of_string c = Some r \<Longrightarrow>
   get_balance (recording_session u c os ins) coin w = (Inr r, w)"
  by (simp add: get_balance_def get_wallet_balance_def call_session_def io_bind_def io_lift_def
      recording_session_def sample_wallet_def available_to_withdraw_def ebind_def
      del: float_of_string.simps)

lemma recording_place_order:
  "place_order (recording_session u c os ins) a \<lparr>calls = cs, exchange = s\<rparr>
     = (Inr sample_accepted, \<lparr>calls = cs @ [a], exchange = s @ [order_data a]\<rparr>)"
  by (simp add: place_order_def call_session_def recording_session_def)

lemma recording_get_avg_price:
  "get_avg_price (recording_session u c [sample_filled] ins) cat oid w = (Inr 100, w)"
  using float_of_string_100
  by (simp add: get_avg_price_def get_order_by_id_def call_session_def io_bind_def io_lift_def
      recording_session_def sample_listing_def sample_filled_def avg_price_of_def ebind_def
      del: float_of_string.simps)

lemma recording_get_qty_precision:
  "count_decimal_places bp = Inr n \<Longrightarrow>
   get_qty_precision (recording_session u c os [sample_instrument bp ts]) cat symbol w = (Inr n, w)"
  by (simp add: get_qty_precision_def get_instruments_info_def call_session_def
      recording_session_def io_bind_def io_lift_def
      sample_listing_def sample_instrument_def precision_of_def ebind_def)

lemma recording_get_price_precision:
  "count_decimal_places ts = Inr n \<Longrightarrow>
   get_price_precision (recording_session u c os [sample_instrument bp ts]) cat symbol w = (Inr n, w)"
  by (simp add: get_price_precision_def get_instruments_info_def call_session_def
      recording_session_def io_bind_def io_lift_def
      sample_listing_def sample_instrument_def precision_of_def ebind_def)

lemma float_of_string_big: "float_of_string ''90092293.14715965'' = Some (fl 90092293.14715965)"
  by (simp add: unsigned_float_def is_digit_def digit_val_def)

lemma count_decimal_places_8: "count_decimal_places ''0.00000001'' = Inr 8"
  by (simp add: count_decimal_places_def index_def)

lemma big_overshoot:
  "round_to_precision (fl 90092293.14715965) 8 = fl 90092293.14715967
   \<and> fl 90092293.14715965 < fl 90092293.14715967
   \<and> fmul (fl 90092293.14715965) (fl (10 ^ 8)) = 9009229314715966
   \<and> fl 90092293.14715965 * 10 ^ 8 < 9009229314715966"
  by (simp add: float_eval)


lemma recording_execute_market_order:
  "execute_market_order (recording_session ''1000'' c os ins) symbol BUY 10 recording_start
     = (Inr (JStr ''1''), \<lparr>calls = [market_order_args symbol BUY 100],
                            exchange = [order_data (market_order_args symbol BUY 100)]\<rparr>)"
proof -
  have b: "get_balance (recording_session ''1000'' c os ins) ''USDT'' recording_start
             = (Inr 1000, recording_start)"
    by (rule recording_get_balance_usdt [OF float_of_string_1000])
  have r: "py_round (fmul 1000 (fdiv 10 100)) 0 = 100"
    by (simp add: float_eval)
  show ?thesis
    using b r recording_place_order [of "''1000''" c os ins "market_order_args symbol BUY 100" "[]" "[]"]
    by (simp add: execute_market_order_def calculate_order_qty_def io_bind_def io_return_def
        io_lift_def sample_order_id recording_start_def)
qed

lemma recording_pipeline:
  assumes c: "coin \<noteq> ''USDT''" and b: "float_of_string c = Some b"
    and n: "count_decimal_places bp = Inr n" and p: "count_decimal_places ts = Inr p"
    and sl: "sl \<noteq> 0" and tp: "tp \<noteq> 0"
  shows "place_market_order_spot_to_usdt
           (recording_session ''1000'' c [sample_filled] [sample_instrument bp ts])
           coin BUY 10 (Some tp) (Some sl) recording_start
         = (Inr (),
            \<lparr>calls = [market_order_args (coin @ ''USDT'') BUY 100,
                      stop_loss_args (coin @ ''USDT'') (round_to_precision b n)
                        (py_round (fmul 100 (fsub 1 (fdiv sl 100))) p),
                      limit_order_args (coin @ ''USDT'') (round_to_precision b n)
                        (py_round (fmul 100 (fadd 1 (fdiv tp 100))) p) SELL],
             exchange = [order_data (market_order_args (coin @ ''USDT'') BUY 100),
                         order_data (stop_loss_args (coin @ ''USDT'') (round_to_precision b n)
                           (py_round (fmul 100 (fsub 1 (fdiv sl 100))) p)),
                         order_data (limit_order_args (coin @ ''USDT'') (round_to_precision b n)
                           (py_round (fmul 100 (fadd 1 (fdiv tp 100))) p) SELL)]\<rparr>)"
proof -
  let ?s = "recording_session ''1000'' c [sample_filled] [sample_instrument bp ts]"
  let ?sym = "coin @ ''USDT''"
  let ?w1 = "\<lparr>calls = [market_order_args ?sym BUY 100],
              exchange = [order_data (market_order_args ?sym BUY 100)]\<rparr>"
  have m: "execute_market_order ?s ?sym BUY 10 recording_start = (Inr (JStr ''1''), ?w1)"
    by (rule recording_execute_market_order)
  have a: "get_avg_price ?s SPOT (JStr ''1'') ?w1 = (Inr 100, ?w1)"
    by (rule recording_get_avg_price)
  have f: "get_formatted_balance ?s coin ?sym ?w1 = (Inr (round_to_precision b n), ?w1)"
    by (simp add: get_formatted_balance_def recording_get_balance_coin [OF c b]
        recording_get_qty_precision [OF n] io_bind_def io_return_def)
  show ?thesis
    unfolding pipeline_tail [OF m a f]
    using sl tp
    by (simp add: io_bind_def io_return_def io_lift_def set_stop_loss_def set_take_profit_def
        calculate_target_price_def recording_get_price_precision [OF p] place_stop_loss_def
        place_limit_order_def sample_order_id recording_place_order)
qed

lemma recording_spec_scenario:
  "place_market_order_spot_to_usdt
      (recording_session ''1000'' ''0.0023'' [sample_filled] [sample_btcusdt])
      ''BTC'' BUY 10 (Some 10) (Some 10) recording_start
   = (Inr (),
        \<lparr>calls = [market_order_args ''BTCUSDT'' BUY 100,
                 stop_loss_args ''BTCUSDT'' (fl 0.0023) 90,
                 limit_order_args ''BTCUSDT'' (fl 0.0023) 110 SELL],
         exchange =
         [[(''category'', JStr ''spot''), (''symbol'', JStr ''BTCUSDT''), (''side'', JStr ''Buy''),
           (''orderType'', JStr ''Market''), (''qty'', JNum 100), (''timeInForce'', JStr ''IOC''),
           (''isLeverage'', JNum 0), (''orderFilter'', JStr ''Order''), (''marketUnit'', JStr ''quoteCoin'')],
          [(''category'', JStr ''spot''), (''symbol'', JStr ''BTCUSDT''), (''side'', JStr ''Sell''),
           (''orderType'', JStr ''Market''), (''qty'', JNum (fl 0.0023)), (''timeInForce'', JStr ''IOC''),
           (''isLeverage'', JNum 0), (''orderFilter'', JStr ''StopOrder''),
           (''triggerPrice'', JNum 90)],
          [(''category'', JStr ''spot''), (''symbol'', JStr ''BTCUSDT''), (''side'', JStr ''Sell''),
           (''orderType'', JStr ''Limit''), (''qty'', JNum (fl 0.0023)), (''timeInForce'', JStr ''GTC''),
           (''isLeverage'', JNum 0), (''orderFilter'', JStr ''Order''), (''price'', JNum 110)]]\<rparr>)"
proof -
  have c: "''BTC'' \<noteq> ''USDT''" by simp
  have q: "round_to_precision (fl 0.0023) 4 = fl 0.0023" by (simp add: float_eval)
  have e1: "py_round (fmul 100 (fsub 1 (fdiv 10 100))) 2 = 90" by (simp add: float_eval)
  have e2: "py_round (fmul 100 (fadd 1 (fdiv 10 100))) 2 = 110" by (simp add: float_eval)
  have s: "(10::real) \<noteq> 0" by simp
  show ?thesis
    unfolding sample_btcusdt_def
      recording_pipeline [OF c float_of_string_0_0023 count_decimal_places_0_0001
        count_decimal_places_0_01 s s] q e1 e2
    by (simp add: order_data_def market_order_args_def stop_loss_args_def limit_order_args_def)
qed


section \<open>Precision Resolver: counting decimal places\<close>

text \<open>
  C5. \<^verbatim>\<open>_count_decimal_places\<close> returns the number of characters after the decimal
  point of a step-size string, and 0 for a string without a decimal point; \<^verbatim>\<open>"0.0001"\<close>
  gives 4, \<^verbatim>\<open>"1"\<close> gives 0 and \<^verbatim>\<open>"0.1"\<close> gives 1. (With more than one point in the string
  the count stops at the second, by \<open>count_decimal_places_general\<close>.)
\<close>

theorem count_decimal_places_spec:
  "(CHR ''.'' \<notin> set s \<longrightarrow> count_decimal_places s = Inr 0)
   \<and> (CHR ''.'' \<notin> set a \<and> CHR ''.'' \<notin> set b \<longrightarrow>
        count_decimal_places (a @ ''.'' @ b) = Inr (length b))
   \<and> count_decimal_places ''0.0001'' = Inr 4
   \<and> count_decimal_places ''1'' = Inr 0
   \<and> count_decimal_places ''0.1'' = Inr 1"
proof (intro conjI impI)
  assume "CHR ''.'' \<notin> set s"
  then show "count_decimal_places s = Inr 0" by (simp add: count_decimal_places_def)
next
  assume h: "CHR ''.'' \<notin> set a \<and> CHR ''.'' \<notin> set b"
  show "count_decimal_places (a @ ''.'' @ b) = Inr (length b)"
  proof -
    from h have tw: "takeWhile (\<lambda>x. x \<noteq> CHR ''.'') b = b"
      by (intro takeWhile_eq_all_conv [THEN iffD2]) auto
    have "count_decimal_places (a @ CHR ''.'' # b) = Inr (length (takeWhile (\<lambda>x. x \<noteq> CHR ''.'') b))"
      using h by (intro count_decimal_places_general) simp
    then show ?thesis unfolding tw by simp
  qed
next
  show "count_decimal_places ''0.0001'' = Inr 4"
    by (simp add: count_decimal_places_def index_def)
  show "count_decimal_places ''1'' = Inr 0"
    by (simp add: count_decimal_places_def)
  show "count_decimal_places ''0.1'' = Inr 1"
    by (simp add: count_decimal_places_def index_def)
qed

theorem count_decimal_places_spec_witness:
  "CHR ''.'' \<notin> set ''100'' \<and> count_decimal_places ''100'' = Inr 0
   \<and> CHR ''.'' \<notin> set ''12'' \<and> CHR ''.'' \<notin> set ''345''
   \<and> count_decimal_places ''12.345'' = Inr 3"
  using count_decimal_places_spec [of "''100''" "''12''" "''345''"] by simp


section \<open>Quantity Calculator\<close>

text \<open>
  C1, as the code has it. For a USDT balance \<open>B \<ge> 0\<close> and a percentage \<open>P\<close> between 0 and
  100, \<^verbatim>\<open>_calculate_order_qty\<close> returns \<^verbatim>\<open>round(B * (P / 100), 0)\<close> in float arithmetic: the
  quotient \<open>P / 100\<close> is rounded to a float, then the product, and the product is rounded
  to zero decimal places. The result is a whole number and not negative.
\<close>

theorem calculate_order_qty_rounds:
  assumes "get_balance sess ''USDT'' w = (Inr B, w')" and "0 \<le> B" and "0 \<le> P" and "P \<le> 100"
  shows "calculate_order_qty sess symbol P w = (Inr (py_round (fmul B (fdiv P 100)) 0), w')
         \<and> 0 \<le> py_round (fmul B (fdiv P 100)) 0
         \<and> (\<exists>k::int. py_round (fmul B (fdiv P 100)) 0 = of_int k)"
proof -
  have r: "calculate_order_qty sess symbol P w = (Inr (py_round (fmul B (fdiv P 100)) 0), w')"
    using assms(1) by (simp add: calculate_order_qty_def io_bind_def io_return_def)
  have "0 \<le> fdiv P 100" using assms(3) by (intro fdiv_nonneg) simp_all
  then have "0 \<le> fmul B (fdiv P 100)" using assms(2) by (intro fmul_nonneg)
  then have n: "0 \<le> py_round (fmul B (fdiv P 100)) 0" by (rule py_round_nonneg)
  have k: "\<exists>k::int. py_round (fmul B (fdiv P 100)) 0 = of_int k"
    by (rule py_round_0_int)
  from r n k show ?thesis by blast
qed

theorem calculate_order_qty_rounds_witness:
  "get_balance (sample_session ''1000'' [] [] False) ''USDT'' sample_start = (Inr 1000, sample_start)
   \<and> calculate_order_qty (sample_session ''1000'' [] [] False) ''BTCUSDT'' 10 sample_start
       = (Inr 100, sample_start)
   \<and> (0::real) \<le> 100"
proof -
  have b: "get_balance (sample_session ''1000'' [] [] False) ''USDT'' sample_start = (Inr 1000, sample_start)"
    by (rule sample_get_balance_usdt [OF float_of_string_1000])
  have r: "py_round (fmul 1000 (fdiv 10 100)) 0 = 100"
    by (simp add: float_eval)
  show ?thesis
    using calculate_order_qty_rounds [OF b, of 10 "''BTCUSDT''"] b r by simp
qed

text \<open>
  The result is not always \<^verbatim>\<open>round(B * P / 100, 0)\<close>. With a balance of 650 and 17 percent
  the float \<^verbatim>\<open>17 / 100\<close> lies above 0.17, the product is the float 110.50000000000001
  and the quantity is 111, while \<open>650 * 17 / 100 = 110.5\<close> rounds to 110, in exact and in
  float arithmetic.
\<close>

theorem order_qty_formula_counterexample:
  "get_balance (sample_session ''650'' [] [] False) ''USDT'' sample_start = (Inr 650, sample_start)
   \<and> calculate_order_qty (sample_session ''650'' [] [] False) ''BTCUSDT'' 17 sample_start
       = (Inr 111, sample_start)
   \<and> py_round (fdiv (fmul 650 17) 100) 0 = 110
   \<and> round_half_even (650 * 17 / 100) = 110"
proof -
  have b: "get_balance (sample_session ''650'' [] [] False) ''USDT'' sample_start = (Inr 650, sample_start)"
    by (rule sample_get_balance_usdt [OF float_of_string_650])
  have r: "py_round (fmul 650 (fdiv 17 100)) 0 = 111"
    by (simp add: float_eval)
  have q: "calculate_order_qty (sample_session ''650'' [] [] False) ''BTCUSDT'' 17 sample_start
       = (Inr 111, sample_start)"
    using b r by (simp add: calculate_order_qty_def io_bind_def io_return_def)
  have f: "py_round (fdiv (fmul 650 17) 100) 0 = 110"
    by (simp add: float_eval)
  have e: "round_half_even (650 * 17 / 100) = 110"
    by (simp add: round_half_even_def Let_def)
  from b q f e show ?thesis by simp
qed

text \<open>
  C10. Rounding to zero decimals goes to the nearest integer, a tie to the even one, not
  down. With the balance \<open>B = 1.5\<close> and the percentage \<open>P = 100\<close> the amount \<open>B * P / 100\<close>
  is 1.5 (the float product is exact here), halfway between 1 and 2: the order quantity is
  its half-even rounding, 2, strictly above the amount, where truncation gives 1. So there
  are a balance \<open>B \<ge> 0\<close> and a percentage in \<open>[0, 100]\<close> for which the quantity is above
  \<open>B * P / 100\<close>, and with \<open>P = 100\<close> the quote amount of the order is above the balance.
\<close>

theorem order_qty_can_exceed_balance:
  "\<exists>(sess :: nat http_session) w w' B P q.
     get_balance sess ''USDT'' w = (Inr B, w') \<and> 0 \<le> B \<and> 0 \<le> P \<and> P \<le> 100
     \<and> calculate_order_qty sess ''BTCUSDT'' P w = (Inr q, w')
     \<and> q = py_round (fmul B (fdiv P 100)) 0
     \<and> fmul B (fdiv P 100) = B * P / 100
     \<and> q = of_int (round_half_even (B * P / 100))
     \<and> B * P / 100 - of_int \<lfloor>B * P / 100\<rfloor> = 1 / 2
     \<and> even (round_half_even (B * P / 100))
     \<and> of_int \<lfloor>B * P / 100\<rfloor> < B * P / 100
     \<and> B * P / 100 < q \<and> P = 100 \<and> B < q \<and> B = 1.5 \<and> q = 2"
proof -
  let ?s = "sample_session ''1.5'' [] [] False"
  have b: "get_balance ?s ''USDT'' sample_start = (Inr 1.5, sample_start)"
    by (rule sample_get_balance_usdt [OF float_of_string_1_5])
  have r: "py_round (fmul 1.5 (fdiv 100 100)) 0 = 2"
    by (simp add: float_eval)
  then have q: "calculate_order_qty ?s ''BTCUSDT'' 100 sample_start = (Inr 2, sample_start)"
    using b by (simp add: calculate_order_qty_def io_bind_def io_return_def)
  have r': "(2::real) = py_round (fmul 1.5 (fdiv 100 100)) 0"
    using r by (rule sym)
  have m: "fmul 1.5 (fdiv 100 100) = 1.5 * 100 / 100"
    by (simp add: float_eval)
  have h: "(2::real) = of_int (round_half_even (1.5 * 100 / 100))"
    by (simp add: round_half_even_def)
  have d: "(1.5::real) * 100 / 100 - of_int \<lfloor>(1.5::real) * 100 / 100\<rfloor> = 1 / 2"
    by simp
  have ev: "even (round_half_even (1.5 * 100 / 100))"
    by (simp add: round_half_even_def)
  have f: "of_int \<lfloor>(1.5::real) * 100 / 100\<rfloor> < (1.5::real) * 100 / 100" by simp
  have g: "(1.5::real) * 100 / 100 < 2" by simp
  have n1: "(0::real) \<le> 1.5" by simp
  have n2: "(0::real) \<le> 100" by simp
  have n3: "(100::real) \<le> 100" by simp
  have n4: "(100::real) = 100" by (rule refl)
  have n5: "(1.5::real) < 2" by simp
  have n6: "(1.5::real) = 1.5" by (rule refl)
  have n7: "(2::real) = 2" by (rule refl)
  have "get_balance ?s ''USDT'' sample_start = (Inr 1.5, sample_start)
     \<and> (0::real) \<le> 1.5 \<and> (0::real) \<le> 100 \<and> (100::real) \<le> 100
     \<and> calculate_order_qty ?s ''BTCUSDT'' 100 sample_start = (Inr 2, sample_start)
     \<and> (2::real) = py_round (fmul 1.5 (fdiv 100 100)) 0
     \<and> fmul 1.5 (fdiv 100 100) = 1.5 * 100 / 100
     \<and> (2::real) = of_int (round_half_even (1.5 * 100 / 100))
     \<and> (1.5::real) * 100 / 100 - of_int \<lfloor>(1.5::real) * 100 / 100\<rfloor> = 1 / 2
     \<and> even (round_half_even (1.5 * 100 / 100))
     \<and> of_int \<lfloor>(1.5::real) * 100 / 100\<rfloor> < (1.5::real) * 100 / 100
     \<and> (1.5::real) * 100 / 100 < 2 \<and> (100::real) = 100 \<and> (1.5::real) < 2
     \<and> (1.5::real) = 1.5 \<and> (2::real) = 2"
    by (intro conjI) (rule b n1 n2 n3 q r' m h d ev f g n4 n5 n6 n7)+
  then show ?thesis by blast
qed


section \<open>Rounding a quantity down to a precision\<close>

text \<open>
  C2. \<^verbatim>\<open>_round_to_precision\<close> does not always round down. The float 54.099999999999994 is
  the float just below the float 54.1; its product with 10 is rounded to the float 541
  before the floor is taken, and the result at precision 1 is the float 54.1, above the
  value. The two values of the specification, 1.23456 and 1.239, give 1.23 at
  precision 2.
\<close>

theorem round_to_precision_overshoot:
  "round_to_precision (fl 54.099999999999994) 1 = fl 54.1
   \<and> fl 54.099999999999994 < round_to_precision (fl 54.099999999999994) 1
   \<and> fmul (fl 54.099999999999994) (fl 10) = 541
   \<and> fl 54.099999999999994 * 10 < 541
   \<and> round_to_precision (fl 1.23456) 2 = fl 1.23
   \<and> round_to_precision (fl 1.239) 2 = fl 1.23"
  by (simp add: float_eval)


section \<open>Dependent Order Planner: target prices\<close>

text \<open>
  C3, as the code has it. Once the price precision \<open>p\<close> of the symbol is resolved,
  \<^verbatim>\<open>_calculate_target_price\<close> returns \<^verbatim>\<open>avg_price * (1 + pct / 100)\<close> for a take-profit and
  \<^verbatim>\<open>avg_price * (1 - pct / 100)\<close> for a stop-loss, computed in float arithmetic and rounded
  by \<^verbatim>\<open>round\<close> to \<open>p\<close> decimals: the float nearest to \<open>k / 10^p\<close> for the integer \<open>k\<close>
  nearest to the product times \<open>10^p\<close> (ties go to the even one, see \<open>py_round_tie_even\<close>).
  An average price of 100 with 10 percent gives 90 for the stop-loss at every precision
  and 110 for the take-profit at every precision up to 13.
\<close>

theorem calculate_target_price_rounds:
  assumes "get_price_precision sess SPOT symbol w = (Inr p, w')"
  shows "calculate_target_price sess symbol avg pct True w
           = (Inr (py_round (fmul avg (fadd 1 (fdiv pct 100))) p), w')
       \<and> calculate_target_price sess symbol avg pct False w
           = (Inr (py_round (fmul avg (fsub 1 (fdiv pct 100))) p), w')
       \<and> (\<exists>k::int. py_round (fmul avg (fadd 1 (fdiv pct 100))) p = fl (of_int k / 10 ^ p)
              \<and> \<bar>of_int k - fmul avg (fadd 1 (fdiv pct 100)) * 10 ^ p\<bar> \<le> 1 / 2)
       \<and> (\<exists>k::int. py_round (fmul avg (fsub 1 (fdiv pct 100))) p = fl (of_int k / 10 ^ p)
              \<and> \<bar>of_int k - fmul avg (fsub 1 (fdiv pct 100)) * 10 ^ p\<bar> \<le> 1 / 2)
       \<and> (p \<le> 13 \<longrightarrow> py_round (fmul 100 (fadd 1 (fdiv 10 100))) p = 110)
       \<and> py_round (fmul 100 (fsub 1 (fdiv 10 100))) p = 90"
proof -
  have tp: "calculate_target_price sess symbol avg pct True w
              = (Inr (py_round (fmul avg (fadd 1 (fdiv pct 100))) p), w')"
    using calculate_target_price_ok [OF assms, of avg pct True] by simp
  have sl: "calculate_target_price sess symbol avg pct False w
              = (Inr (py_round (fmul avg (fsub 1 (fdiv pct 100))) p), w')"
    using calculate_target_price_ok [OF assms, of avg pct False] by simp
  have k: "\<And>x. \<exists>k::int. py_round x p = fl (of_int k / 10 ^ p) \<and> \<bar>of_int k - x * 10 ^ p\<bar> \<le> 1 / 2"
    using round_half_even_bounds by (auto simp: py_round_def)
  have e1: "p \<le> 13 \<longrightarrow> py_round (fmul 100 (fadd 1 (fdiv 10 100))) p = 110"
    using take_profit_110 [of p] by blast
  have e2: "py_round (fmul 100 (fsub 1 (fdiv 10 100))) p = 90"
    by (rule stop_loss_90)
  from tp sl k [of "fmul avg (fadd 1 (fdiv pct 100))"] k [of "fmul avg (fsub 1 (fdiv pct 100))"] e1 e2
  show ?thesis by blast
qed

theorem calculate_target_price_rounds_witness:
  "get_price_precision (sample_session ''1000'' [] [sample_btcusdt] False) SPOT ''BTCUSDT'' sample_start
     = (Inr 2, sample_start)
   \<and> (2::nat) \<le> 13
   \<and> calculate_target_price (sample_session ''1000'' [] [sample_btcusdt] False) ''BTCUSDT'' 100 10 True
       sample_start = (Inr 110, sample_start)
   \<and> calculate_target_price (sample_session ''1000'' [] [sample_btcusdt] False) ''BTCUSDT'' 100 10 False
       sample_start = (Inr 90, sample_start)"
proof -
  let ?s = "sample_session ''1000'' [] [sample_btcusdt] False"
  have p: "get_price_precision ?s SPOT ''BTCUSDT'' sample_start = (Inr 2, sample_start)"
    by (rule sample_get_price_precision)
  show ?thesis
    using calculate_target_price_rounds [OF p, of 100 10] p by simp
qed

text \<open>
  The take-profit price is not 110 at every precision: the float product
  \<^verbatim>\<open>100 * (1 + 10 / 100)\<close> is 110.00000000000001, and with a tick size of 14 decimals
  rounding leaves it as it is.
\<close>

theorem take_profit_110_counterexample:
  "get_price_precision
      (sample_session ''1000'' [] [sample_instrument ''0.0001'' ''0.00000000000001''] False)
      SPOT ''BTCUSDT'' sample_start = (Inr 14, sample_start)
   \<and> calculate_target_price
      (sample_session ''1000'' [] [sample_instrument ''0.0001'' ''0.00000000000001''] False)
      ''BTCUSDT'' 100 10 True sample_start = (Inr (fl 110.00000000000001), sample_start)
   \<and> fl 110.00000000000001 \<noteq> 110"
proof -
  let ?s = "sample_session ''1000'' [] [sample_instrument ''0.0001'' ''0.00000000000001''] False"
  have c: "count_decimal_places ''0.00000000000001'' = Inr 14"
    by (simp add: count_decimal_places_def index_def)
  have p: "get_price_precision ?s SPOT ''BTCUSDT'' sample_start = (Inr 14, sample_start)"
    using c
    by (simp add: get_price_precision_def sample_get_instruments_info io_bind_def io_lift_def
        sample_listing_def sample_instrument_def precision_of_def ebind_def)
  have r: "py_round (fmul 100 (fadd 1 (fdiv 10 100))) 14 = fl 110.00000000000001"
    by (simp add: float_eval)
  have t: "calculate_target_price ?s ''BTCUSDT'' 100 10 True sample_start
             = (Inr (fl 110.00000000000001), sample_start)"
    using calculate_target_price_ok [OF p, of 100 10 True] r by simp
  have n: "fl 110.00000000000001 \<noteq> 110"
    by (simp add: float_eval)
  from p t n show ?thesis by simp
qed


section \<open>The quantity of the legs\<close>

text \<open>
  C6. The quantity of the legs is the balance of the base coin, fetched after the market
  order, passed through \<^verbatim>\<open>_round_to_precision\<close> with the quantity precision of the symbol;
  nothing of it is read from the order response. With a balance of 0.0023 at precision 4
  both legs reach the exchange with the quantity 0.0023. The quantity is not always the
  balance rounded down: with a balance of 90092293.14715965 and a quantity precision of
  8 decimals, the product with \<open>10^8\<close> is rounded up to the float 9009229314715966
  before the floor is taken, \<^verbatim>\<open>_get_formatted_balance\<close> returns 90092293.14715967, and
  both legs reach the exchange with this quantity, above the balance held. This is the
  defect of \<^verbatim>\<open>_round_to_precision\<close> of C2, met in the pipeline.
\<close>

theorem formatted_balance_exceeds_balance:
  "get_balance (recording_session ''1000'' ''90092293.14715965'' [sample_filled]
        [sample_instrument ''0.00000001'' ''0.01'']) ''SHIB'' recording_start
     = (Inr (fl 90092293.14715965), recording_start)
   \<and> get_qty_precision (recording_session ''1000'' ''90092293.14715965'' [sample_filled]
        [sample_instrument ''0.00000001'' ''0.01'']) SPOT ''SHIBUSDT'' recording_start
     = (Inr 8, recording_start)
   \<and> get_formatted_balance (recording_session ''1000'' ''90092293.14715965'' [sample_filled]
        [sample_instrument ''0.00000001'' ''0.01'']) ''SHIB'' ''SHIBUSDT'' recording_start
     = (Inr (fl 90092293.14715967), recording_start)
   \<and> fl 90092293.14715965 < fl 90092293.14715967
   \<and> place_market_order_spot_to_usdt
        (recording_session ''1000'' ''90092293.14715965'' [sample_filled]
           [sample_instrument ''0.00000001'' ''0.01''])
        ''SHIB'' BUY 10 (Some 10) (Some 10) recording_start
     = (Inr (),
        \<lparr>calls = [market_order_args ''SHIBUSDT'' BUY 100,
                 stop_loss_args ''SHIBUSDT'' (fl 90092293.14715967) 90,
                 limit_order_args ''SHIBUSDT'' (fl 90092293.14715967) 110 SELL],
         exchange =
         [[(''category'', JStr ''spot''), (''symbol'', JStr ''SHIBUSDT''), (''side'', JStr ''Buy''),
           (''orderType'', JStr ''Market''), (''qty'', JNum 100), (''timeInForce'', JStr ''IOC''),
           (''isLeverage'', JNum 0), (''orderFilter'', JStr ''Order''), (''marketUnit'', JStr ''quoteCoin'')],
          [(''category'', JStr ''spot''), (''symbol'', JStr ''SHIBUSDT''), (''side'', JStr ''Sell''),
           (''orderType'', JStr ''Market''), (''qty'', JNum (fl 90092293.14715967)), (''timeInForce'', JStr ''IOC''),
           (''isLeverage'', JNum 0), (''orderFilter'', JStr ''StopOrder''),
           (''triggerPrice'', JNum 90)],
          [(''category'', JStr ''spot''), (''symbol'', JStr ''SHIBUSDT''), (''side'', JStr ''Sell''),
           (''orderType'', JStr ''Limit''), (''qty'', JNum (fl 90092293.14715967)), (''timeInForce'', JStr ''GTC''),
           (''isLeverage'', JNum 0), (''orderFilter'', JStr ''Order''), (''price'', JNum 110)]]\<rparr>)
   \<and> place_market_order_spot_to_usdt
        (recording_session ''1000'' ''0.0023'' [sample_filled] [sample_btcusdt])
        ''BTC'' BUY 10 (Some 10) (Some 10) recording_start
     = (Inr (),
        \<lparr>calls = [market_order_args ''BTCUSDT'' BUY 100,
                 stop_loss_args ''BTCUSDT'' (fl 0.0023) 90,
                 limit_order_args ''BTCUSDT'' (fl 0.0023) 110 SELL],
         exchange =
         [[(''category'', JStr ''spot''), (''symbol'', JStr ''BTCUSDT''), (''side'', JStr ''Buy''),
           (''orderType'', JStr ''Market''), (''qty'', JNum 100), (''timeInForce'', JStr ''IOC''),
           (''isLeverage'', JNum 0), (''orderFilter'', JStr ''Order''), (''marketUnit'', JStr ''quoteCoin'')],
          [(''category'', JStr ''spot''), (''symbol'', JStr ''BTCUSDT''), (''side'', JStr ''Sell''),
           (''orderType'', JStr ''Market''), (''qty'', JNum (fl 0.0023)), (''timeInForce'', JStr ''IOC''),
           (''isLeverage'', JNum 0), (''orderFilter'', JStr ''StopOrder''),
           (''triggerPrice'', JNum 90)],
          [(''category'', JStr ''spot''), (''symbol'', JStr ''BTCUSDT''), (''side'', JStr ''Sell''),
           (''orderType'', JStr ''Limit''), (''qty'', JNum (fl 0.0023)), (''timeInForce'', JStr ''GTC''),
           (''isLeverage'', JNum 0), (''orderFilter'', JStr ''Order''), (''price'', JNum 110)]]\<rparr>)"
proof -
  let ?s = "recording_session ''1000'' ''90092293.14715965'' [sample_filled]
              [sample_instrument ''0.00000001'' ''0.01'']"
  have c: "''SHIB'' \<noteq> ''USDT''" by simp
  have b: "get_balance ?s ''SHIB'' recording_start = (Inr (fl 90092293.14715965), recording_start)"
    by (rule recording_get_balance_coin [OF c float_of_string_big])
  have p: "get_qty_precision ?s SPOT ''SHIBUSDT'' recording_start = (Inr 8, recording_start)"
    by (rule recording_get_qty_precision [OF count_decimal_places_8])
  have q: "round_to_precision (fl 90092293.14715965) 8 = fl 90092293.14715967"
    using big_overshoot by (simp only:)
  have lt: "fl 90092293.14715965 < fl 90092293.14715967"
    using big_overshoot by (simp only:)
  have f: "get_formatted_balance ?s ''SHIB'' ''SHIBUSDT'' recording_start
             = (Inr (fl 90092293.14715967), recording_start)"
    using b p q by (simp add: get_formatted_balance_def io_bind_def io_return_def)
  have e1: "py_round (fmul 100 (fsub 1 (fdiv 10 100))) 2 = 90" by (simp add: float_eval)
  have e2: "py_round (fmul 100 (fadd 1 (fdiv 10 100))) 2 = 110" by (simp add: float_eval)
  have s: "(10::real) \<noteq> 0" by simp
  have r: "place_market_order_spot_to_usdt ?s ''SHIB'' BUY 10 (Some 10) (Some 10) recording_start
     = (Inr (),
        \<lparr>calls = [market_order_args ''SHIBUSDT'' BUY 100,
                 stop_loss_args ''SHIBUSDT'' (fl 90092293.14715967) 90,
                 limit_order_args ''SHIBUSDT'' (fl 90092293.14715967) 110 SELL],
         exchange =
         [[(''category'', JStr ''spot''), (''symbol'', JStr ''SHIBUSDT''), (''side'', JStr ''Buy''),
           (''orderType'', JStr ''Market''), (''qty'', JNum 100), (''timeInForce'', JStr ''IOC''),
           (''isLeverage'', JNum 0), (''orderFilter'', JStr ''Order''), (''marketUnit'', JStr ''quoteCoin'')],
          [(''category'', JStr ''spot''), (''symbol'', JStr ''SHIBUSDT''), (''side'', JStr ''Sell''),
           (''orderType'', JStr ''Market''), (''qty'', JNum (fl 90092293.14715967)), (''timeInForce'', JStr ''IOC''),
           (''isLeverage'', JNum 0), (''orderFilter'', JStr ''StopOrder''),
           (''triggerPrice'', JNum 90)],
          [(''category'', JStr ''spot''), (''symbol'', JStr ''SHIBUSDT''), (''side'', JStr ''Sell''),
           (''orderType'', JStr ''Limit''), (''qty'', JNum (fl 90092293.14715967)), (''timeInForce'', JStr ''GTC''),
           (''isLeverage'', JNum 0), (''orderFilter'', JStr ''Order''), (''price'', JNum 110)]]\<rparr>)"
    unfolding recording_pipeline [OF c float_of_string_big count_decimal_places_8
        count_decimal_places_0_01 s s] q e1 e2
    by (simp add: order_data_def market_order_args_def stop_loss_args_def limit_order_args_def)
  from b p f lt r recording_spec_scenario show ?thesis by (simp only: simp_thms)
qed

text \<open>
  C8. What reaches the exchange. With an average price of 100, a take-profit of 10 percent
  and a stop-loss of 10 percent, the exchange receives after the market order a market
  sell order with the stop-order filter and the trigger price 90, then a limit sell order
  at the price 110, both for the same quantity 0.0023. With a stop-loss of 100 percent
  the stop-loss price is 0: the manager passes \<^verbatim>\<open>trigger_price=0.0\<close>, the client tests
  \<^verbatim>\<open>if trigger_price:\<close> and leaves it out, and the exchange receives a market sell order
  with the stop-order filter and no trigger price. (A limit price is tested with
  \<^verbatim>\<open>is not None\<close> and is kept when it is 0.)
\<close>

theorem stop_loss_without_trigger_price:
  "place_market_order_spot_to_usdt
      (recording_session ''1000'' ''0.0023'' [sample_filled] [sample_btcusdt])
      ''BTC'' BUY 10 (Some 10) (Some 100) recording_start
     = (Inr (),
        \<lparr>calls = [market_order_args ''BTCUSDT'' BUY 100,
                 stop_loss_args ''BTCUSDT'' (fl 0.0023) 0,
                 limit_order_args ''BTCUSDT'' (fl 0.0023) 110 SELL],
         exchange =
         [[(''category'', JStr ''spot''), (''symbol'', JStr ''BTCUSDT''), (''side'', JStr ''Buy''),
           (''orderType'', JStr ''Market''), (''qty'', JNum 100), (''timeInForce'', JStr ''IOC''),
           (''isLeverage'', JNum 0), (''orderFilter'', JStr ''Order''), (''marketUnit'', JStr ''quoteCoin'')],
          [(''category'', JStr ''spot''), (''symbol'', JStr ''BTCUSDT''), (''side'', JStr ''Sell''),
           (''orderType'', JStr ''Market''), (''qty'', JNum (fl 0.0023)), (''timeInForce'', JStr ''IOC''),
           (''isLeverage'', JNum 0), (''orderFilter'', JStr ''StopOrder'')],
          [(''category'', JStr ''spot''), (''symbol'', JStr ''BTCUSDT''), (''side'', JStr ''Sell''),
           (''orderType'', JStr ''Limit''), (''qty'', JNum (fl 0.0023)), (''timeInForce'', JStr ''GTC''),
           (''isLeverage'', JNum 0), (''orderFilter'', JStr ''Order''), (''price'', JNum 110)]]\<rparr>)
   \<and> py_round (fmul 100 (fsub 1 (fdiv 100 100))) 2 = 0
   \<and> ord_trigger_price (stop_loss_args ''BTCUSDT'' (fl 0.0023) 0) = Some 0
   \<and> map_of (order_data (stop_loss_args ''BTCUSDT'' (fl 0.0023) 0)) ''triggerPrice'' = None
   \<and> map_of (order_data (limit_order_args ''BTCUSDT'' (fl 0.0023) 0 SELL)) ''price''
        = Some (JNum 0)
   \<and> place_market_order_spot_to_usdt
        (recording_session ''1000'' ''0.0023'' [sample_filled] [sample_btcusdt])
        ''BTC'' BUY 10 (Some 10) (Some 10) recording_start
     = (Inr (),
        \<lparr>calls = [market_order_args ''BTCUSDT'' BUY 100,
                 stop_loss_args ''BTCUSDT'' (fl 0.0023) 90,
                 limit_order_args ''BTCUSDT'' (fl 0.0023) 110 SELL],
         exchange =
         [[(''category'', JStr ''spot''), (''symbol'', JStr ''BTCUSDT''), (''side'', JStr ''Buy''),
           (''orderType'', JStr ''Market''), (''qty'', JNum 100), (''timeInForce'', JStr ''IOC''),
           (''isLeverage'', JNum 0), (''orderFilter'', JStr ''Order''), (''marketUnit'', JStr ''quoteCoin'')],
          [(''category'', JStr ''spot''), (''symbol'', JStr ''BTCUSDT''), (''side'', JStr ''Sell''),
           (''orderType'', JStr ''Market''), (''qty'', JNum (fl 0.0023)), (''timeInForce'', JStr ''IOC''),
           (''isLeverage'', JNum 0), (''orderFilter'', JStr ''StopOrder''),
           (''triggerPrice'', JNum 90)],
          [(''category'', JStr ''spot''), (''symbol'', JStr ''BTCUSDT''), (''side'', JStr ''Sell''),
           (''orderType'', JStr ''Limit''), (''qty'', JNum (fl 0.0023)), (''timeInForce'', JStr ''GTC''),
           (''isLeverage'', JNum 0), (''orderFilter'', JStr ''Order''), (''price'', JNum 110)]]\<rparr>)"
proof -
  have c: "''BTC'' \<noteq> ''USDT''" by simp
  have q: "round_to_precision (fl 0.0023) 4 = fl 0.0023" by (simp add: float_eval)
  have e1: "py_round (fmul 100 (fsub 1 (fdiv 100 100))) 2 = 0" by (simp add: float_eval)
  have e2: "py_round (fmul 100 (fadd 1 (fdiv 10 100))) 2 = 110" by (simp add: float_eval)
  have s1: "(100::real) \<noteq> 0" by simp
  have s2: "(10::real) \<noteq> 0" by simp
  have r: "place_market_order_spot_to_usdt
      (recording_session ''1000'' ''0.0023'' [sample_filled] [sample_btcusdt])
      ''BTC'' BUY 10 (Some 10) (Some 100) recording_start
     = (Inr (),
        \<lparr>calls = [market_order_args ''BTCUSDT'' BUY 100,
                 stop_loss_args ''BTCUSDT'' (fl 0.0023) 0,
                 limit_order_args ''BTCUSDT'' (fl 0.0023) 110 SELL],
         exchange =
         [[(''category'', JStr ''spot''), (''symbol'', JStr ''BTCUSDT''), (''side'', JStr ''Buy''),
           (''orderType'', JStr ''Market''), (''qty'', JNum 100), (''timeInForce'', JStr ''IOC''),
           (''isLeverage'', JNum 0), (''orderFilter'', JStr ''Order''), (''marketUnit'', JStr ''quoteCoin'')],
          [(''category'', JStr ''spot''), (''symbol'', JStr ''BTCUSDT''), (''side'', JStr ''Sell''),
           (''orderType'', JStr ''Market''), (''qty'', JNum (fl 0.0023)), (''timeInForce'', JStr ''IOC''),
           (''isLeverage'', JNum 0), (''orderFilter'', JStr ''StopOrder'')],
          [(''category'', JStr ''spot''), (''symbol'', JStr ''BTCUSDT''), (''side'', JStr ''Sell''),
           (''orderType'', JStr ''Limit''), (''qty'', JNum (fl 0.0023)), (''timeInForce'', JStr ''GTC''),
           (''isLeverage'', JNum 0), (''orderFilter'', JStr ''Order''), (''price'', JNum 110)]]\<rparr>)"
    unfolding sample_btcusdt_def
      recording_pipeline [OF c float_of_string_0_0023 count_decimal_places_0_0001
        count_decimal_places_0_01 s1 s2] q e1 e2
    by (simp add: order_data_def market_order_args_def stop_loss_args_def limit_order_args_def)
  have t: "ord_trigger_price (stop_loss_args ''BTCUSDT'' (fl 0.0023) 0) = Some 0"
    by (simp add: stop_loss_args_def)
  have d: "map_of (order_data (stop_loss_args ''BTCUSDT'' (fl 0.0023) 0)) ''triggerPrice'' = None"
    by (simp add: order_data_def stop_loss_args_def)
  have l: "map_of (order_data (limit_order_args ''BTCUSDT'' (fl 0.0023) 0 SELL)) ''price''
        = Some (JNum 0)"
    by (simp add: order_data_def limit_order_args_def)
  from r e1 t d l recording_spec_scenario show ?thesis by (simp only: simp_thms)
qed


section \<open>Which legs are placed\<close>

text \<open>
  C7, as the code has it. Once the market order, the average-price lookup and the balance
  lookup have succeeded, the pipeline submits at most a stop-loss leg followed by at most
  a take-profit leg. A percentage that is \<^verbatim>\<open>None\<close> or 0 places no leg. A non-zero stop-loss
  percentage places the stop-loss leg first, as soon as its price precision is resolved.
  A non-zero take-profit percentage places the take-profit leg when no stop-loss leg is
  requested or when the stop-loss step has returned, and its price precision is resolved.
  No error is caught: if the stop-loss step raises, the call ends with that error and
  no take-profit leg is placed.
\<close>

theorem legs_follow_percentages:
  assumes "execute_market_order sess (coin @ ''USDT'') sd pct w = (Inr oid, w1)"
    and "get_avg_price sess SPOT oid w1 = (Inr avg, w2)"
    and "get_formatted_balance sess coin (coin @ ''USDT'') w2 = (Inr qty, w3)"
  shows "(\<exists>l1 l2. calls (snd (place_market_order_spot_to_usdt sess coin sd pct tp sl w))
                    = calls w3 @ l1 @ l2
            \<and> (l1 = [] \<or> (\<exists>x. l1 = [stop_loss_args (coin @ ''USDT'') qty x]))
            \<and> (l2 = [] \<or> (\<exists>y. l2 = [limit_order_args (coin @ ''USDT'') qty y SELL]))
            \<and> (\<not> truthy sl \<longrightarrow> l1 = []) \<and> (\<not> truthy tp \<longrightarrow> l2 = []))
       \<and> (sl = Some s \<and> s \<noteq> 0 \<and> get_price_precision sess SPOT (coin @ ''USDT'') w3 = (Inr p, w4)
          \<longrightarrow> (\<exists>ls. calls (snd (place_market_order_spot_to_usdt sess coin sd pct tp sl w))
                  = calls w3 @ stop_loss_args (coin @ ''USDT'') qty
                                 (py_round (fmul avg (fsub 1 (fdiv s 100))) p) # ls))
       \<and> (\<not> truthy sl \<and> tp = Some t \<and> t \<noteq> 0
            \<and> get_price_precision sess SPOT (coin @ ''USDT'') w3 = (Inr p, w4)
          \<longrightarrow> calls (snd (place_market_order_spot_to_usdt sess coin sd pct tp sl w))
                = calls w3 @ [limit_order_args (coin @ ''USDT'') qty
                                (py_round (fmul avg (fadd 1 (fdiv t 100))) p) SELL])
       \<and> (sl = Some s \<and> s \<noteq> 0
            \<and> set_stop_loss sess avg qty (coin @ ''USDT'') s w3 = (Inr (), w5)
            \<and> tp = Some t \<and> t \<noteq> 0
            \<and> get_price_precision sess SPOT (coin @ ''USDT'') w5 = (Inr p', w6)
          \<longrightarrow> calls (snd (place_market_order_spot_to_usdt sess coin sd pct tp sl w))
                = calls w5 @ [limit_order_args (coin @ ''USDT'') qty
                                (py_round (fmul avg (fadd 1 (fdiv t 100))) p') SELL])
       \<and> (sl = Some s \<and> s \<noteq> 0
            \<and> set_stop_loss sess avg qty (coin @ ''USDT'') s w3 = (Inl e, w5)
          \<longrightarrow> place_market_order_spot_to_usdt sess coin sd pct tp sl w = (Inl e, w5)
              \<and> list_all (\<lambda>a. ord_type a \<noteq> LIMIT) (drop (length (calls w3)) (calls w5)))"
proof -
  let ?sym = "coin @ ''USDT''"
  let ?R = "place_market_order_spot_to_usdt sess coin sd pct tp sl w"
  have c1: "\<exists>l1 l2. calls (snd ?R) = calls w3 @ l1 @ l2
            \<and> (l1 = [] \<or> (\<exists>x. l1 = [stop_loss_args ?sym qty x]))
            \<and> (l2 = [] \<or> (\<exists>y. l2 = [limit_order_args ?sym qty y SELL]))
            \<and> (\<not> truthy sl \<longrightarrow> l1 = []) \<and> (\<not> truthy tp \<longrightarrow> l2 = [])"
    by (rule pipeline_legs [OF assms])
  have c2: "sl = Some s \<and> s \<noteq> 0 \<and> get_price_precision sess SPOT ?sym w3 = (Inr p, w4)
          \<longrightarrow> (\<exists>ls. calls (snd ?R)
                  = calls w3 @ stop_loss_args ?sym qty (py_round (fmul avg (fsub 1 (fdiv s 100))) p) # ls)"
  proof
    assume h: "sl = Some s \<and> s \<noteq> 0 \<and> get_price_precision sess SPOT ?sym w3 = (Inr p, w4)"
    let ?a = "stop_loss_args ?sym qty (py_round (fmul avg (fsub 1 (fdiv s 100))) p)"
    obtain r v where sv: "set_stop_loss sess avg qty ?sym s w3 = (r, v)"
      by (cases "set_stop_loss sess avg qty ?sym s w3")
    have cv: "calls v = calls w3 @ [?a]"
      using set_stop_loss_calls_ok [of sess ?sym w3 p w4 avg qty s] h sv by simp
    show "\<exists>ls. calls (snd ?R) = calls w3 @ ?a # ls"
    proof (cases r)
      case (Inl e)
      then have "?R = (Inl e, v)"
        using pipeline_sl_error [OF assms, of s e v tp] h sv by simp
      with cv show ?thesis by simp
    next
      case (Inr u)
      then have T: "?R = (case tp of None \<Rightarrow> (Inr (), v)
            | Some t \<Rightarrow> if t \<noteq> 0 then set_take_profit sess avg qty ?sym t v else (Inr (), v))"
        using pipeline_sl_then_tp [OF assms, of s v tp] h sv by simp
      obtain l where "calls (snd ?R) = calls v @ l"
      proof (cases tp)
        case None
        with T have "calls (snd ?R) = calls v @ []" by simp
        then show ?thesis by (rule that)
      next
        case (Some t')
        show ?thesis
        proof (cases "t' = 0")
          case True
          with T Some have "calls (snd ?R) = calls v @ []" by simp
          then show ?thesis by (rule that)
        next
          case False
          with T Some have "?R = set_take_profit sess avg qty ?sym t' v" by simp
          then show ?thesis
            using set_take_profit_trace [of sess avg qty ?sym t' v] that by auto
        qed
      qed
      with cv show ?thesis by simp
    qed
  qed
  have c3: "\<not> truthy sl \<and> tp = Some t \<and> t \<noteq> 0
            \<and> get_price_precision sess SPOT ?sym w3 = (Inr p, w4)
          \<longrightarrow> calls (snd ?R)
                = calls w3 @ [limit_order_args ?sym qty (py_round (fmul avg (fadd 1 (fdiv t 100))) p) SELL]"
  proof
    assume h: "\<not> truthy sl \<and> tp = Some t \<and> t \<noteq> 0
            \<and> get_price_precision sess SPOT ?sym w3 = (Inr p, w4)"
    then have "?R = set_take_profit sess avg qty ?sym t w3"
      using pipeline_tp_only [OF assms, of sl t] by simp
    then show "calls (snd ?R)
                = calls w3 @ [limit_order_args ?sym qty (py_round (fmul avg (fadd 1 (fdiv t 100))) p) SELL]"
      using set_take_profit_calls_ok [of sess ?sym w3 p w4 avg qty t] h by simp
  qed
  have c4: "sl = Some s \<and> s \<noteq> 0
            \<and> set_stop_loss sess avg qty ?sym s w3 = (Inr (), w5)
            \<and> tp = Some t \<and> t \<noteq> 0
            \<and> get_price_precision sess SPOT ?sym w5 = (Inr p', w6)
          \<longrightarrow> calls (snd ?R)
                = calls w5 @ [limit_order_args ?sym qty (py_round (fmul avg (fadd 1 (fdiv t 100))) p') SELL]"
  proof
    assume h: "sl = Some s \<and> s \<noteq> 0
            \<and> set_stop_loss sess avg qty ?sym s w3 = (Inr (), w5)
            \<and> tp = Some t \<and> t \<noteq> 0
            \<and> get_price_precision sess SPOT ?sym w5 = (Inr p', w6)"
    then have "?R = set_take_profit sess avg qty ?sym t w5"
      using pipeline_sl_then_tp [OF assms, of s w5 tp] by simp
    then show "calls (snd ?R)
                = calls w5 @ [limit_order_args ?sym qty (py_round (fmul avg (fadd 1 (fdiv t 100))) p') SELL]"
      using set_take_profit_calls_ok [of sess ?sym w5 p' w6 avg qty t] h by simp
  qed
  have c5: "sl = Some s \<and> s \<noteq> 0
            \<and> set_stop_loss sess avg qty ?sym s w3 = (Inl e, w5)
          \<longrightarrow> ?R = (Inl e, w5)
              \<and> list_all (\<lambda>a. ord_type a \<noteq> LIMIT) (drop (length (calls w3)) (calls w5))"
  proof
    assume h: "sl = Some s \<and> s \<noteq> 0 \<and> set_stop_loss sess avg qty ?sym s w3 = (Inl e, w5)"
    then have r: "?R = (Inl e, w5)"
      using pipeline_sl_error [OF assms, of s e w5 tp] by simp
    obtain ls where "calls w5 = calls w3 @ ls" "ls = [] \<or> (\<exists>x. ls = [stop_loss_args ?sym qty x])"
      using set_stop_loss_trace [of sess avg qty ?sym s w3] h by auto
    then have "list_all (\<lambda>a. ord_type a \<noteq> LIMIT) (drop (length (calls w3)) (calls w5))"
      by (auto simp: stop_loss_args_def)
    with r show "?R = (Inl e, w5)
              \<and> list_all (\<lambda>a. ord_type a \<noteq> LIMIT) (drop (length (calls w3)) (calls w5))"
      by simp
  qed
  from c1 c2 c3 c4 c5 show ?thesis by (intro conjI)
qed

theorem legs_follow_percentages_witness:
  "calls (snd (place_market_order_spot_to_usdt
       (sample_session ''1000'' [sample_filled] [sample_btcusdt] False)
       ''BTC'' BUY 10 None None sample_start))
     = [market_order_args ''BTCUSDT'' BUY 100]
   \<and> calls (snd (place_market_order_spot_to_usdt
       (sample_session ''1000'' [sample_filled] [sample_btcusdt] False)
       ''BTC'' BUY 10 (Some 10) None sample_start))
     = [market_order_args ''BTCUSDT'' BUY 100, limit_order_args ''BTCUSDT'' (fl 0.0023) 110 SELL]
   \<and> calls (snd (place_market_order_spot_to_usdt
       (sample_session ''1000'' [sample_filled] [sample_btcusdt] False)
       ''BTC'' BUY 10 (Some 10) (Some 10) sample_start))
     = [market_order_args ''BTCUSDT'' BUY 100, stop_loss_args ''BTCUSDT'' (fl 0.0023) 90,
        limit_order_args ''BTCUSDT'' (fl 0.0023) 110 SELL]
   \<and> place_market_order_spot_to_usdt
       (sample_session ''1000'' [sample_filled] [sample_btcusdt] True)
       ''BTC'' BUY 10 (Some 10) (Some 10) sample_start
     = (Inl (SessionError ''InvalidRequestError''),
        \<lparr>calls = [market_order_args ''BTCUSDT'' BUY 100, stop_loss_args ''BTCUSDT'' (fl 0.0023) 90],
         exchange = Suc 0\<rparr>)"
proof -
  let ?s = "sample_session ''1000'' [sample_filled] [sample_btcusdt] False"
  let ?r = "sample_session ''1000'' [sample_filled] [sample_btcusdt] True"
  let ?m = "market_order_args ''BTCUSDT'' BUY 100"
  let ?sl = "stop_loss_args ''BTCUSDT'' (fl 0.0023) 90"
  let ?w1 = "\<lparr>calls = [?m], exchange = Suc 0\<rparr>"
  let ?w5 = "\<lparr>calls = [?m] @ [?sl], exchange = Suc (Suc 0)\<rparr>"
  let ?v5 = "\<lparr>calls = [?m] @ [?sl], exchange = Suc 0\<rparr>"
  have e2: "py_round (fmul 100 (fadd 1 (fdiv 10 100))) 2 = 110" by (simp add: float_eval)
  have m: "execute_market_order ?s (''BTC'' @ ''USDT'') BUY 10 sample_start = (Inr (JStr ''1''), ?w1)"
    by (rule sample_market_filled)
  have a: "get_avg_price ?s SPOT (JStr ''1'') ?w1 = (Inr 100, ?w1)"
    by (rule sample_get_avg_price)
  have f: "get_formatted_balance ?s ''BTC'' (''BTC'' @ ''USDT'') ?w1 = (Inr (fl 0.0023), ?w1)"
    by (rule sample_formatted)
  have p1: "get_price_precision ?s SPOT (''BTC'' @ ''USDT'') ?w1 = (Inr 2, ?w1)"
    by (rule sample_get_price_precision)
  have p5: "get_price_precision ?s SPOT (''BTC'' @ ''USDT'') ?w5 = (Inr 2, ?w5)"
    by (rule sample_get_price_precision)
  have s5: "set_stop_loss ?s 100 (fl 0.0023) (''BTC'' @ ''USDT'') 10 ?w1 = (Inr (), ?w5)"
    by (rule sample_set_stop_loss)
  have m': "execute_market_order ?r (''BTC'' @ ''USDT'') BUY 10 sample_start = (Inr (JStr ''1''), ?w1)"
    by (rule sample_market_filled)
  have a': "get_avg_price ?r SPOT (JStr ''1'') ?w1 = (Inr 100, ?w1)"
    by (rule sample_get_avg_price)
  have f': "get_formatted_balance ?r ''BTC'' (''BTC'' @ ''USDT'') ?w1 = (Inr (fl 0.0023), ?w1)"
    by (rule sample_formatted)
  have r5: "set_stop_loss ?r 100 (fl 0.0023) (''BTC'' @ ''USDT'') 10 ?w1
              = (Inl (SessionError ''InvalidRequestError''), ?v5)"
    by (rule sample_set_stop_loss_rejected)
  have t0: "calls (snd (place_market_order_spot_to_usdt ?s ''BTC'' BUY 10 None None sample_start)) = [?m]"
    using legs_follow_percentages [OF m a f, where tp = None and sl = None] by simp
  have t1: "calls (snd (place_market_order_spot_to_usdt ?s ''BTC'' BUY 10 (Some 10) None sample_start))
      = [?m, limit_order_args ''BTCUSDT'' (fl 0.0023) 110 SELL]"
    using legs_follow_percentages [OF m a f, where tp = "Some 10" and sl = None and t = 10
        and p = 2 and ?w4.0 = ?w1] p1 e2 by simp
  have t2: "calls (snd (place_market_order_spot_to_usdt ?s ''BTC'' BUY 10 (Some 10) (Some 10) sample_start))
      = [?m, ?sl, limit_order_args ''BTCUSDT'' (fl 0.0023) 110 SELL]"
    using legs_follow_percentages [OF m a f, where tp = "Some 10" and sl = "Some 10" and t = 10
        and s = 10 and p' = 2 and ?w5.0 = ?w5 and ?w6.0 = ?w5] s5 p5 e2 by simp
  have t3: "place_market_order_spot_to_usdt ?r ''BTC'' BUY 10 (Some 10) (Some 10) sample_start
      = (Inl (SessionError ''InvalidRequestError''), ?v5)"
    using legs_follow_percentages [OF m' a' f', where tp = "Some 10" and sl = "Some 10"
        and s = 10 and e = "SessionError ''InvalidRequestError''" and ?w5.0 = ?v5] r5 by simp
  from t0 t1 t2 t3 show ?thesis by simp
qed

text \<open>
  The legs are not independent: on an exchange that refuses the stop order, a call with
  both percentages supplied ends with the exchange's error after the stop-loss
  submission, and the take-profit leg is never placed.
\<close>

theorem take_profit_not_independent_counterexample:
  "place_market_order_spot_to_usdt
       (sample_session ''1000'' [sample_filled] [sample_btcusdt] True)
       ''BTC'' BUY 10 (Some 10) (Some 10) sample_start
     = (Inl (SessionError ''InvalidRequestError''),
        \<lparr>calls = [market_order_args ''BTCUSDT'' BUY 100, stop_loss_args ''BTCUSDT'' (fl 0.0023) 90],
         exchange = Suc 0\<rparr>)
   \<and> list_all (\<lambda>a. ord_type a \<noteq> LIMIT)
        [market_order_args ''BTCUSDT'' BUY 100, stop_loss_args ''BTCUSDT'' (fl 0.0023) 90]"
proof -
  let ?r = "sample_session ''1000'' [sample_filled] [sample_btcusdt] True"
  let ?w1 = "\<lparr>calls = [market_order_args ''BTCUSDT'' BUY 100], exchange = Suc 0\<rparr>"
  have m: "execute_market_order ?r (''BTC'' @ ''USDT'') BUY 10 sample_start = (Inr (JStr ''1''), ?w1)"
    by (rule sample_market_filled)
  have a: "get_avg_price ?r SPOT (JStr ''1'') ?w1 = (Inr 100, ?w1)"
    by (rule sample_get_avg_price)
  have f: "get_formatted_balance ?r ''BTC'' (''BTC'' @ ''USDT'') ?w1 = (Inr (fl 0.0023), ?w1)"
    by (rule sample_formatted)
  have "place_market_order_spot_to_usdt ?r ''BTC'' BUY 10 (Some 10) (Some 10) sample_start
     = (Inl (SessionError ''InvalidRequestError''),
        \<lparr>calls = [market_order_args ''BTCUSDT'' BUY 100, stop_loss_args ''BTCUSDT'' (fl 0.0023) 90],
         exchange = Suc 0\<rparr>)"
    unfolding pipeline_tail [OF m a f]
    using sample_set_stop_loss_rejected [of "''1000''" "[sample_filled]"
        "[market_order_args ''BTCUSDT'' BUY 100]" "Suc 0"]
    by (simp add: io_bind_def)
  then show ?thesis by (simp add: market_order_args_def stop_loss_args_def)
qed


section \<open>Errors of the lookups\<close>




text \<open>
  C9, as the code has it. When the instrument lookup answers with an empty list, both
  precision lookups end with Python's \<^verbatim>\<open>IndexError\<close> and submit nothing; the steps that
  need a precision (the target price, both legs, the formatted balance and with it the
  rest of the pipeline) end with the same error.
\<close>

theorem precision_lookup_empty_aborts:
  assumes "get_instruments_info sess cat symbol w = (Inr info, w')"
    and "getitem info ''result'' = Inr r"
    and "getitem r ''list'' = Inr (JList [])"
  shows "get_qty_precision sess cat symbol w = (Inl IndexError, w')
       \<and> get_price_precision sess cat symbol w = (Inl IndexError, w')
       \<and> error_name IndexError = ''IndexError''
       \<and> calls w' = calls w
       \<and> (cat = SPOT \<longrightarrow>
            calculate_target_price sess symbol avg pct is_tp w = (Inl IndexError, w')
          \<and> set_take_profit sess avg qty symbol pct w = (Inl IndexError, w')
          \<and> set_stop_loss sess avg qty symbol pct w = (Inl IndexError, w'))
       \<and> (cat = SPOT \<and> get_balance sess coin w0 = (Inr b, w) \<longrightarrow>
            get_formatted_balance sess coin symbol w0 = (Inl IndexError, w'))
       \<and> (cat = SPOT \<and> symbol = coin @ ''USDT''
            \<and> execute_market_order sess symbol sd pob v = (Inr oid, v1)
            \<and> get_avg_price sess SPOT oid v1 = (Inr a, v2)
            \<and> get_balance sess coin v2 = (Inr b, w) \<longrightarrow>
            place_market_order_spot_to_usdt sess coin sd pob tp sl v = (Inl IndexError, w'))"
proof -
  have e: "\<And>flt field. precision_of flt field info = Inl IndexError"
    using assms(2,3) by (simp add: precision_of_def ebind_def)
  have q: "get_qty_precision sess cat symbol w = (Inl IndexError, w')"
    using assms(1) e by (simp add: get_qty_precision_def io_bind_def io_lift_def)
  have p: "get_price_precision sess cat symbol w = (Inl IndexError, w')"
    using assms(1) e by (simp add: get_price_precision_def io_bind_def io_lift_def)
  have c: "calls w' = calls w"
    using get_instruments_info_calls [of sess cat symbol w] assms(1) by simp
  have s: "cat = SPOT \<longrightarrow>
            calculate_target_price sess symbol avg pct is_tp w = (Inl IndexError, w')
          \<and> set_take_profit sess avg qty symbol pct w = (Inl IndexError, w')
          \<and> set_stop_loss sess avg qty symbol pct w = (Inl IndexError, w')"
    using p by (auto simp: calculate_target_price_fail set_take_profit_fail set_stop_loss_fail)
  have f: "cat = SPOT \<and> get_balance sess coin w0 = (Inr b, w) \<longrightarrow>
            get_formatted_balance sess coin symbol w0 = (Inl IndexError, w')"
    using q by (auto simp: get_formatted_balance_def io_bind_def)
  have g: "cat = SPOT \<and> symbol = coin @ ''USDT''
            \<and> execute_market_order sess symbol sd pob v = (Inr oid, v1)
            \<and> get_avg_price sess SPOT oid v1 = (Inr a, v2)
            \<and> get_balance sess coin v2 = (Inr b, w) \<longrightarrow>
            place_market_order_spot_to_usdt sess coin sd pob tp sl v = (Inl IndexError, w')"
    using q by (auto simp: place_market_order_spot_to_usdt_def Let_def get_formatted_balance_def
        io_bind_def)
  from q p c s f g show ?thesis by simp
qed

theorem precision_lookup_empty_aborts_witness:
  "get_instruments_info (sample_session ''1000'' [sample_filled] [] False) SPOT ''BTCUSDT''
      \<lparr>calls = [market_order_args ''BTCUSDT'' BUY 100], exchange = Suc 0\<rparr>
     = (Inr (sample_listing []), \<lparr>calls = [market_order_args ''BTCUSDT'' BUY 100], exchange = Suc 0\<rparr>)
   \<and> getitem (sample_listing []) ''result'' = Inr (JDict [(''list'', JList [])])
   \<and> getitem (JDict [(''list'', JList [])]) ''list'' = Inr (JList [])
   \<and> get_qty_precision (sample_session ''1000'' [sample_filled] [] False) SPOT ''BTCUSDT''
        \<lparr>calls = [market_order_args ''BTCUSDT'' BUY 100], exchange = Suc 0\<rparr>
       = (Inl IndexError, \<lparr>calls = [market_order_args ''BTCUSDT'' BUY 100], exchange = Suc 0\<rparr>)
   \<and> set_stop_loss (sample_session ''1000'' [sample_filled] [] False) 100 (fl 0.0023) ''BTCUSDT'' 10
        \<lparr>calls = [market_order_args ''BTCUSDT'' BUY 100], exchange = Suc 0\<rparr>
       = (Inl IndexError, \<lparr>calls = [market_order_args ''BTCUSDT'' BUY 100], exchange = Suc 0\<rparr>)
   \<and> place_market_order_spot_to_usdt (sample_session ''1000'' [sample_filled] [] False)
        ''BTC'' BUY 10 (Some 10) (Some 10) sample_start
       = (Inl IndexError, \<lparr>calls = [market_order_args ''BTCUSDT'' BUY 100], exchange = Suc 0\<rparr>)"
proof -
  let ?s = "sample_session ''1000'' [sample_filled] [] False"
  let ?w1 = "\<lparr>calls = [market_order_args ''BTCUSDT'' BUY 100], exchange = Suc 0\<rparr>"
  have i: "get_instruments_info ?s SPOT ''BTCUSDT'' ?w1 = (Inr (sample_listing []), ?w1)"
    by (rule sample_get_instruments_info)
  have r: "getitem (sample_listing []) ''result'' = Inr (JDict [(''list'', JList [])])"
    by (simp add: sample_listing_def)
  have l: "getitem (JDict [(''list'', JList [])]) ''list'' = Inr (JList [])"
    by simp
  have m: "execute_market_order ?s ''BTCUSDT'' BUY 10 sample_start = (Inr (JStr ''1''), ?w1)"
    using sample_market_filled [of "[sample_filled]" "[]" False] by simp
  have a: "get_avg_price ?s SPOT (JStr ''1'') ?w1 = (Inr 100, ?w1)"
    by (rule sample_get_avg_price)
  have b: "get_balance ?s ''BTC'' ?w1 = (Inr (fl 0.0023), ?w1)"
    by (rule sample_get_balance_coin)
  note T = precision_lookup_empty_aborts [OF i r l, where avg = 100 and pct = 10 and qty = "fl 0.0023"
      and coin = "''BTC''" and sd = BUY and pob = 10 and v = sample_start and oid = "JStr ''1''"
      and ?v1.0 = ?w1 and a = 100 and ?v2.0 = ?w1 and b = "fl 0.0023" and tp = "Some 10"
      and sl = "Some 10"]
  from T have t1: "get_qty_precision ?s SPOT ''BTCUSDT'' ?w1 = (Inl IndexError, ?w1)"
    by (simp only:)
  from T have t2: "set_stop_loss ?s 100 (fl 0.0023) ''BTCUSDT'' 10 ?w1 = (Inl IndexError, ?w1)"
    by (simp only: simp_thms)
  from T m a b have t3: "place_market_order_spot_to_usdt ?s ''BTC'' BUY 10 (Some 10) (Some 10)
      sample_start = (Inl IndexError, ?w1)"
    by simp
  from i r l t1 t2 t3 show ?thesis by (simp only: simp_thms)
qed

text \<open>The error is not named \<^verbatim>\<open>MetadataUnavailable\<close>: no such exception exists in the code.\<close>

theorem metadata_unavailable_counterexample:
  "get_qty_precision (sample_session ''1000'' [sample_filled] [] False) SPOT ''BTCUSDT'' sample_start
     = (Inl IndexError, sample_start)
   \<and> get_price_precision (sample_session ''1000'' [sample_filled] [] False) SPOT ''BTCUSDT'' sample_start
     = (Inl IndexError, sample_start)
   \<and> error_name IndexError \<noteq> ''MetadataUnavailable''"
  using sample_get_precision_empty [of "''1000''" "[sample_filled]" False SPOT "''BTCUSDT''" sample_start]
  by simp

end
